theory Spec2Isabelle
  imports Main "HOL-Library.Word" "HOL-Library.Sublist"
begin

section \<open>Data model of the hook manager (HookManager.cpp)\<close>

text \<open>
  Addresses (\<^verbatim>\<open>Hook::Function\<close>, \<^verbatim>\<open>HMODULE\<close>, \<^verbatim>\<open>void *\<close>, \<^verbatim>\<open>const char *\<close>) are natural
  numbers; \<open>0\<close> is \<^verbatim>\<open>nullptr\<close>. Paths are strings.
\<close>

type_synonym addr = nat
type_synonym path = string

datatype HookType = Export | FunctionHook | VTableHook

text \<open>
  \<^verbatim>\<open>Hook::Status\<close>: the members the hook manager names, and one constructor for every
  other status code of the trampoline patcher.
\<close>

datatype Status = Unknown | Success | MemoryProtectionFailure | OtherStatus nat

record Hook =
  Target :: addr
  Replacement :: addr
  Trampoline :: addr

record ModuleExport =
  Address :: addr
  Name :: addr
  Ordinal :: "16 word"

text \<open>What a run of the code can end with instead of a result.\<close>

datatype error =
    OutOfRange        \<comment> \<open>\<^verbatim>\<open>std::out_of_range\<close> thrown by \<^verbatim>\<open>sVTableAddresses.at\<close>\<close>
  | AssertionFailed   \<comment> \<open>a failed \<^verbatim>\<open>assert\<close>\<close>
  | NullCall          \<comment> \<open>a call through the null pointer returned by \<^verbatim>\<open>Call\<close>\<close>

datatype protection = PAGE_READONLY | PAGE_READWRITE

text \<open>
  The fields of the executable image that \<^verbatim>\<open>GetModuleExports\<close> reads: the DOS header's
  magic, the NT header's signature, the export entry of the data directory and the export
  directory with its three tables. A table is read by index, as the code does, with no
  bound of its own.
\<close>

record image =
  e_magic :: "16 word"
  nt_Signature :: "32 word"
  export_Size :: "32 word"
  NumberOfNames :: "32 word"
  NumberOfFunctions :: "32 word"
  Base :: "32 word"
  AddressOfNameOrdinals :: "nat \<Rightarrow> 16 word"
  AddressOfNames :: "nat \<Rightarrow> 32 word"
  AddressOfFunctions :: "int \<Rightarrow> 32 word"

text \<open>
  The services the hook manager calls and does not define: the operating system (memory
  protection, the loader, module queries, the image mapped at a module handle, the
  C strings in memory), the path library's \<^verbatim>\<open>stem\<close>, and the trampoline patcher behind
  \<^verbatim>\<open>Hook::Install\<close> and \<^verbatim>\<open>Hook::Uninstall\<close>. Each is a function of its arguments.
\<close>

record env =
  ptr_size :: nat
  addr_LoadLibraryA :: addr
  addr_LoadLibraryW :: addr
  addr_HookLoadLibraryA :: addr
  addr_HookLoadLibraryW :: addr
  current_module :: addr
  module_file_name :: "addr \<Rightarrow> path"
  get_module_handle :: "path \<Rightarrow> addr"
  load_library :: "path \<Rightarrow> addr"
  invoke :: "addr \<Rightarrow> path \<Rightarrow> addr"
  image_at :: "addr \<Rightarrow> image"
  cstr :: "addr \<Rightarrow> string"
  path_stem :: "path \<Rightarrow> string"
  virtual_protect :: "addr \<Rightarrow> protection \<Rightarrow> bool"
  patcher_install :: "addr \<Rightarrow> addr \<Rightarrow> Status \<times> addr"
  patcher_remove :: "Hook \<Rightarrow> Status"

text \<open>
  The process-wide state: the five globals of the file, the pointer-sized memory cells
  the virtual-table strategy reads and writes, and the list of module handles passed to
  \<^verbatim>\<open>FreeLibrary\<close>, in call order.
\<close>

record world =
  sExportHookModule :: addr
  sExportHookPath :: path
  sHooks :: "(Hook \<times> HookType) list"
  sDelayedHookPaths :: "path list"
  sVTableAddresses :: "addr \<rightharpoonup> addr"
  memory :: "addr \<Rightarrow> addr"
  free_library_calls :: "addr list"

definition init_world :: "(addr \<Rightarrow> addr) \<Rightarrow> world" where
  "init_world mem =
     \<lparr>sExportHookModule = 0, sExportHookPath = [], sHooks = [], sDelayedHookPaths = [],
      sVTableAddresses = Map.empty, memory = mem, free_library_calls = []\<rparr>"

section \<open>The Hook class\<close>

text \<open>\<^verbatim>\<open>Hook()\<close>: the empty hook.\<close>

definition Hook_empty :: Hook where
  "Hook_empty = \<lparr>Target = 0, Replacement = 0, Trampoline = 0\<rparr>"

text \<open>
  Modelled from the spec: \<^verbatim>\<open>Hook::IsInstalled\<close> is declared in Hook.hpp, which is not
  among the sources. The spec: the trampoline is null when the hook is uninstalled, and
  set if and only if the hook is installed.
\<close>

definition IsInstalled :: "Hook \<Rightarrow> bool" where
  "IsInstalled h = (Trampoline h \<noteq> 0)"

text \<open>
  Modelled from the spec: \<^verbatim>\<open>Hook::IsValid\<close> (Hook.hpp). The spec: a hook with
  \<open>target = replacement\<close> is invalid, and the empty hook is invalid.
\<close>

definition IsValid :: "Hook \<Rightarrow> bool" where
  "IsValid h = (Target h \<noteq> 0 \<and> Replacement h \<noteq> 0 \<and> Target h \<noteq> Replacement h)"

text \<open>
  Modelled from the spec: \<^verbatim>\<open>Hook::Install\<close> (Hook.cpp) asks the trampoline patcher; on
  success the hook's trampoline is set to the value the patcher reports.
\<close>

definition Hook_Install :: "env \<Rightarrow> Hook \<Rightarrow> Status \<times> Hook" where
  "Hook_Install e hook =
     (case patcher_install e (Target hook) (Replacement hook) of
        (status, tramp) \<Rightarrow>
          (status, if status = Success then hook\<lparr>Trampoline := tramp\<rparr> else hook))"

text \<open>Modelled from the spec: \<^verbatim>\<open>Hook::Call\<close> (Hook.hpp) returns the trampoline address.\<close>

definition Hook_Call :: "Hook \<Rightarrow> addr" where
  "Hook_Call h = Trampoline h"

section \<open>Find\<close>

definition Find :: "world \<Rightarrow> addr \<Rightarrow> Hook" where
  "Find s replacement =
     (case find (\<lambda>it. Replacement (fst it) = replacement) (sHooks s) of
        Some it \<Rightarrow> fst it
      | None \<Rightarrow> Hook_empty)"

section \<open>Install with a strategy (lines 119-177)\<close>

text \<open>
  The \<^verbatim>\<open>switch\<close>: the status, the hook and the state after it. \<^verbatim>\<open>sVTableAddresses.at\<close>
  throws when the target is no key of the slot table. The second \<^verbatim>\<open>VirtualProtect\<close>, which
  restores the protection, has no effect on the state and its result is not read.
\<close>

definition Install_switch ::
  "env \<Rightarrow> world \<Rightarrow> Hook \<Rightarrow> HookType \<Rightarrow> error + (Status \<times> Hook \<times> world)" where
  "Install_switch e s hook method =
     (case method of
        Export \<Rightarrow> Inr (Success, hook, s)
      | FunctionHook \<Rightarrow>
          (case Hook_Install e hook of (status, hook') \<Rightarrow> Inr (status, hook', s))
      | VTableHook \<Rightarrow>
          (case sVTableAddresses s (Target hook) of
             None \<Rightarrow> Inl OutOfRange
           | Some targetAddress \<Rightarrow>
               if virtual_protect e targetAddress PAGE_READWRITE
               then Inr (Success, hook,
                         s\<lparr>memory := (memory s)(targetAddress := Replacement hook)\<rparr>)
               else Inr (MemoryProtectionFailure, hook, s)))"

definition Install_method ::
  "env \<Rightarrow> world \<Rightarrow> addr \<Rightarrow> addr \<Rightarrow> HookType \<Rightarrow> error + (bool \<times> world)" where
  "Install_method e s target replacement method =
     (let hook = \<lparr>Target = target, Replacement = replacement, Trampoline = target\<rparr> in
      case Install_switch e s hook method of
        Inl err \<Rightarrow> Inl err
      | Inr (status, hook', s') \<Rightarrow>
          if status = Success
          then Inr (True, s'\<lparr>sHooks := sHooks s' @ [(hook', method)]\<rparr>)
          else Inr (False, s'))"

section \<open>Install (target, replacement) (lines 405-423)\<close>

text \<open>The two \<^verbatim>\<open>assert\<close>s are branches that end the run.\<close>

definition Install :: "env \<Rightarrow> world \<Rightarrow> addr \<Rightarrow> addr \<Rightarrow> error + (bool \<times> world)" where
  "Install e s target replacement =
     (if target = 0 \<or> replacement = 0 then Inl AssertionFailed
      else if target = replacement then Inr (False, s)
      else let hook = Find s replacement in
        if IsInstalled hook then Inr (target = Target hook, s)
        else Install_method e s target replacement FunctionHook)"

section \<open>GetModuleExports (lines 74-110)\<close>

definition IMAGE_DOS_SIGNATURE :: "16 word" where
  "IMAGE_DOS_SIGNATURE = 0x5A4D"

definition IMAGE_NT_SIGNATURE :: "32 word" where
  "IMAGE_NT_SIGNATURE = 0x00004550"

text \<open>
  One turn of the loop. The ordinal is a 16-bit sum; the index into the function table is
  the difference of two 16-bit values after integer promotion, so it is an \<open>int\<close>.
\<close>

definition export_symbol :: "addr \<Rightarrow> image \<Rightarrow> nat \<Rightarrow> ModuleExport" where
  "export_symbol imageBase img i =
     (let ordinal = AddressOfNameOrdinals img i + (ucast (Base img) :: 16 word) in
      \<lparr>Address =
         (if NumberOfFunctions img > 0
          then imageBase +
               unat (AddressOfFunctions img (uint ordinal - uint (ucast (Base img) :: 16 word)))
          else 0),
       Name = imageBase + unat (AddressOfNames img i),
       Ordinal = ordinal\<rparr>)"

definition GetModuleExports :: "env \<Rightarrow> addr \<Rightarrow> ModuleExport list" where
  "GetModuleExports e handle =
     (let img = image_at e handle in
      if e_magic img \<noteq> IMAGE_DOS_SIGNATURE \<or> nt_Signature img \<noteq> IMAGE_NT_SIGNATURE
         \<or> export_Size img = 0
      then []
      else map (export_symbol handle img) [0..<unat (NumberOfNames img)])"

section \<open>Install over a pair of modules (lines 178-251)\<close>

definition uninteresting :: "string \<Rightarrow> bool" where
  "uninteresting name =
     (name = ''DXGIReportAdapterConfiguration'' \<or> name = ''DXGIDumpJournal''
      \<or> prefix ''DXGID3D10'' name)"

text \<open>The first loop: the matches, pushed back in the order of the target's exports.\<close>

fun analyze_exports ::
  "env \<Rightarrow> ModuleExport list \<Rightarrow> ModuleExport list \<Rightarrow> (addr \<times> addr) list \<Rightarrow> (addr \<times> addr) list"
where
  "analyze_exports e [] replacementExports matches = matches"
| "analyze_exports e (symbol # rest) replacementExports matches =
     (if Name symbol = 0 \<or> Address symbol = 0
      then analyze_exports e rest replacementExports matches
      else case find (\<lambda>it. cstr e (Name it) = cstr e (Name symbol)) replacementExports of
          None \<Rightarrow> analyze_exports e rest replacementExports matches
        | Some it \<Rightarrow>
            if uninteresting (cstr e (Name symbol))
            then analyze_exports e rest replacementExports matches
            else analyze_exports e rest replacementExports
                   (matches @ [(Address symbol, Address it)]))"

text \<open>The second loop: one install per match, counting the successes.\<close>

fun install_matches ::
  "env \<Rightarrow> world \<Rightarrow> (addr \<times> addr) list \<Rightarrow> HookType \<Rightarrow> nat \<Rightarrow> error + (nat \<times> world)"
where
  "install_matches e s [] method counter = Inr (counter, s)"
| "install_matches e s (match # rest) method counter =
     (case Install_method e s (fst match) (snd match) method of
        Inl err \<Rightarrow> Inl err
      | Inr (ok, s') \<Rightarrow>
          install_matches e s' rest method (if ok then counter + 1 else counter))"

text \<open>
  The counter is a \<^verbatim>\<open>size_t\<close>; it counts at most one per name of the export table, whose
  length is a 32-bit number, so it does not wrap and is a \<open>nat\<close> here.
\<close>

definition Install_modules ::
  "env \<Rightarrow> world \<Rightarrow> addr \<Rightarrow> addr \<Rightarrow> HookType \<Rightarrow> error + (bool \<times> world)" where
  "Install_modules e s targetModule replacementModule method =
     (if targetModule = 0 \<or> replacementModule = 0 then Inl AssertionFailed
      else let targetExports = GetModuleExports e targetModule;
               replacementExports = GetModuleExports e replacementModule in
        if targetExports = [] then Inr (False, s)
        else case install_matches e s (analyze_exports e targetExports replacementExports [])
                    method 0 of
            Inl err \<Rightarrow> Inl err
          | Inr (counter, s') \<Rightarrow> Inr (counter \<noteq> 0, s'))"

section \<open>Uninstall of one hook (lines 252-314)\<close>

text \<open>
  Modelled from the spec: \<^verbatim>\<open>Hook::Uninstall\<close> (Hook.cpp) asks the trampoline patcher to
  remove the redirection and reports its status.
\<close>

definition Hook_Uninstall :: "env \<Rightarrow> Hook \<Rightarrow> Status" where
  "Hook_Uninstall e hook = patcher_remove e hook"

text \<open>
  The hook is passed by reference: the result holds the hook as the call leaves it. The
  \<^verbatim>\<open>switch\<close> has no case for the export strategy, which has returned before it; there the
  status would stay \<open>Unknown\<close>.
\<close>

definition Uninstall_hook ::
  "env \<Rightarrow> world \<Rightarrow> Hook \<Rightarrow> HookType \<Rightarrow> error + (bool \<times> Hook \<times> world)" where
  "Uninstall_hook e s hook method =
     (if \<not> IsInstalled hook then Inr (True, hook, s)
      else if method = Export then Inr (True, hook, s)
      else case (case method of
                   FunctionHook \<Rightarrow> Inr (Hook_Uninstall e hook, s)
                 | VTableHook \<Rightarrow>
                     (case sVTableAddresses s (Target hook) of
                        None \<Rightarrow> Inl OutOfRange
                      | Some targetAddress \<Rightarrow>
                          if virtual_protect e targetAddress PAGE_READWRITE
                          then Inr (Success,
                                 s\<lparr>memory := (memory s)(targetAddress := Target hook),
                                   sVTableAddresses := (sVTableAddresses s)(Target hook := None)\<rparr>)
                          else Inr (MemoryProtectionFailure, s))
                 | Export \<Rightarrow> Inr (Unknown, s)) of
          Inl err \<Rightarrow> Inl err
        | Inr (status, s') \<Rightarrow>
            if status = Success then Inr (True, hook\<lparr>Trampoline := 0\<rparr>, s')
            else Inr (False, hook, s'))"

section \<open>Uninstall of everything (lines 457-476)\<close>

text \<open>
  The loop over \<^verbatim>\<open>sHooks\<close>: the hooks already visited, as the calls left them, and the
  hooks still to visit.
\<close>

fun Uninstall_loop ::
  "env \<Rightarrow> (Hook \<times> HookType) list \<Rightarrow> (Hook \<times> HookType) list \<Rightarrow> world
     \<Rightarrow> error + ((Hook \<times> HookType) list \<times> world)"
where
  "Uninstall_loop e visited [] s = Inr (visited, s)"
| "Uninstall_loop e visited (it # rest) s =
     (case Uninstall_hook e s (fst it) (snd it) of
        Inl err \<Rightarrow> Inl err
      | Inr (ok, hook', s') \<Rightarrow> Uninstall_loop e (visited @ [(hook', snd it)]) rest s')"

definition Uninstall :: "env \<Rightarrow> world \<Rightarrow> error + world" where
  "Uninstall e s =
     (case Uninstall_loop e [] (sHooks s) s of
        Inl err \<Rightarrow> Inl err
      | Inr (visited, s1) \<Rightarrow>
          let s2 = s1\<lparr>sHooks := visited\<rparr>;
              s3 = s2\<lparr>sHooks := []\<rparr> in
          if sExportHookModule s3 \<noteq> 0
          then Inr (s3\<lparr>free_library_calls := free_library_calls s3 @ [sExportHookModule s3]\<rparr>)
          else Inr s3)"

section \<open>Call (lines 492-528)\<close>

text \<open>
  Lines 496-516. \<^verbatim>\<open>load_library\<close> is the loader with the watch hook disabled, as the two
  \<^verbatim>\<open>Enable\<close> calls around it intend.
\<close>

definition resolve_export_hook :: "env \<Rightarrow> world \<Rightarrow> error + world" where
  "resolve_export_hook e s =
     (if sExportHookPath s \<noteq> [] then
        if sExportHookModule s \<noteq> 0 then Inl AssertionFailed
        else let s1 = s\<lparr>sExportHookModule := load_library e (sExportHookPath s)\<rparr> in
          if sExportHookModule s1 \<noteq> 0 then
            (case Install_modules e (s1\<lparr>sExportHookPath := []\<rparr>) (sExportHookModule s1)
                    (current_module e) Export of
               Inl err \<Rightarrow> Inl err
             | Inr (ok, s2) \<Rightarrow> Inr s2)
          else Inr s1
      else Inr s)"

definition Call :: "env \<Rightarrow> world \<Rightarrow> addr \<Rightarrow> error + (addr \<times> world)" where
  "Call e s replacement =
     (case resolve_export_hook e s of
        Inl err \<Rightarrow> Inl err
      | Inr s' \<Rightarrow>
          let hook = Find s' replacement in
          if \<not> IsValid hook then Inr (0, s') else Inr (Hook_Call hook, s'))"

section \<open>The load-watch hooks (lines 316-365)\<close>

definition to_lower :: "char \<Rightarrow> char" where
  "to_lower c =
     (let n = (of_char c :: nat) in if 65 \<le> n \<and> n \<le> 90 then char_of (n + 32) else c)"

definition iequals :: "string \<Rightarrow> string \<Rightarrow> bool" where
  "iequals a b = (map to_lower a = map to_lower b)"

text \<open>\<^verbatim>\<open>erase(it)\<close> for the iterator \<^verbatim>\<open>find_if\<close> returned: the first match goes.\<close>

fun erase_first :: "('a \<Rightarrow> bool) \<Rightarrow> 'a list \<Rightarrow> 'a list" where
  "erase_first P [] = []"
| "erase_first P (x # xs) = (if P x then xs else x # erase_first P xs)"

text \<open>
  The body the two hooks share; \<open>self\<close> is the hook's own address, the key it passes to
  \<^verbatim>\<open>Call\<close>. The file name is a string in both.
\<close>

definition load_watch :: "env \<Rightarrow> world \<Rightarrow> addr \<Rightarrow> path \<Rightarrow> error + (addr \<times> world)" where
  "load_watch e s self lpFileName =
     (case Call e s self of
        Inl err \<Rightarrow> Inl err
      | Inr (original, s1) \<Rightarrow>
          if original = 0 then Inl NullCall
          else let handle = invoke e original lpFileName in
            if handle = 0 then Inr (0, s1)
            else let matches = (\<lambda>it. iequals (path_stem e it) (path_stem e lpFileName)) in
              case find matches (sDelayedHookPaths s1) of
                None \<Rightarrow> Inr (handle, s1)
              | Some it \<Rightarrow>
                  (case Install_modules e s1 handle (current_module e) FunctionHook of
                     Inl err \<Rightarrow> Inl err
                   | Inr (ok, s2) \<Rightarrow>
                       if ok
                       then Inr (handle,
                              s2\<lparr>sDelayedHookPaths := erase_first matches (sDelayedHookPaths s2)\<rparr>)
                       else Inr (handle, s2)))"

definition HookLoadLibraryA :: "env \<Rightarrow> world \<Rightarrow> path \<Rightarrow> error + (addr \<times> world)" where
  "HookLoadLibraryA e s lpFileName = load_watch e s (addr_HookLoadLibraryA e) lpFileName"

definition HookLoadLibraryW :: "env \<Rightarrow> world \<Rightarrow> path \<Rightarrow> error + (addr \<times> world)" where
  "HookLoadLibraryW e s lpFileName = load_watch e s (addr_HookLoadLibraryW e) lpFileName"

section \<open>Register (lines 370-403)\<close>

definition Register :: "env \<Rightarrow> world \<Rightarrow> path \<Rightarrow> error + world" where
  "Register e s targetPath =
     (case Install e s (addr_LoadLibraryA e) (addr_HookLoadLibraryA e) of
        Inl err \<Rightarrow> Inl err
      | Inr (ok1, s1) \<Rightarrow>
     (case Install e s1 (addr_LoadLibraryW e) (addr_HookLoadLibraryW e) of
        Inl err \<Rightarrow> Inl err
      | Inr (ok2, s2) \<Rightarrow>
          let replacementModule = current_module e;
              replacementPath = module_file_name e replacementModule in
          if iequals (path_stem e targetPath) (path_stem e replacementPath)
          then Inr (s2\<lparr>sExportHookPath := targetPath\<rparr>)
          else let targetModule = get_module_handle e targetPath in
            if targetModule \<noteq> 0
            then (case Install_modules e s2 targetModule replacementModule FunctionHook of
                    Inl err \<Rightarrow> Inl err
                  | Inr (ok, s3) \<Rightarrow> Inr s3)
            else Inr (s2\<lparr>sDelayedHookPaths := sDelayedHookPaths s2 @ [targetPath]\<rparr>)))"

section \<open>Install into a virtual-table slot (lines 424-456)\<close>

text \<open>
  The slot is \<^verbatim>\<open>vtable + offset\<close>, an address \<open>offset\<close> pointers after \<open>vtable\<close>. When
  \<^verbatim>\<open>emplace\<close> finds the key present, the result \<^verbatim>\<open>insert.first->first == target\<close> is true.
\<close>

definition Install_vtable ::
  "env \<Rightarrow> world \<Rightarrow> addr \<Rightarrow> 32 word \<Rightarrow> addr \<Rightarrow> error + (bool \<times> world)" where
  "Install_vtable e s vtable offset replacement =
     (if vtable = 0 \<or> replacement = 0 then Inl AssertionFailed
      else let slot = vtable + unat offset * ptr_size e in
        if virtual_protect e slot PAGE_READONLY then
          let target = memory s slot in
          case sVTableAddresses s target of
            Some existing \<Rightarrow> Inr (True, s)
          | None \<Rightarrow>
              let s1 = s\<lparr>sVTableAddresses := (sVTableAddresses s)(target \<mapsto> slot)\<rparr> in
              if target \<noteq> replacement then
                (case Install_method e s1 target replacement VTableHook of
                   Inl err \<Rightarrow> Inl err
                 | Inr (ok, s2) \<Rightarrow>
                     if ok then Inr (True, s2)
                     else Inr (False,
                            s2\<lparr>sVTableAddresses := (sVTableAddresses s2)(target := None)\<rparr>))
              else Inr (False, s1\<lparr>sVTableAddresses := (sVTableAddresses s1)(target := None)\<rparr>)
        else Inr (False, s))"

section \<open>The public operations as steps\<close>

text \<open>
  The entry points of the file, the two load-watch hooks as the loader reaches them, and,
  as a step of its own, a write to a memory cell by code outside the hook manager.
\<close>

datatype op =
    OpRegister path
  | OpInstall addr addr
  | OpInstallVTable addr "32 word" addr
  | OpUninstall
  | OpFind addr
  | OpCall addr
  | OpLoadLibraryA path
  | OpLoadLibraryW path
  | OpMemoryWrite addr addr

definition state_of :: "error + ('a \<times> world) \<Rightarrow> error + world" where
  "state_of r = (case r of Inl err \<Rightarrow> Inl err | Inr (x, s) \<Rightarrow> Inr s)"

definition exec :: "env \<Rightarrow> op \<Rightarrow> world \<Rightarrow> error + world" where
  "exec e operation s =
     (case operation of
        OpRegister targetPath \<Rightarrow> Register e s targetPath
      | OpInstall target replacement \<Rightarrow> state_of (Install e s target replacement)
      | OpInstallVTable vtable offset replacement \<Rightarrow>
          state_of (Install_vtable e s vtable offset replacement)
      | OpUninstall \<Rightarrow> Uninstall e s
      | OpFind replacement \<Rightarrow> Inr s
      | OpCall replacement \<Rightarrow> state_of (Call e s replacement)
      | OpLoadLibraryA lpFileName \<Rightarrow> state_of (HookLoadLibraryA e s lpFileName)
      | OpLoadLibraryW lpFileName \<Rightarrow> state_of (HookLoadLibraryW e s lpFileName)
      | OpMemoryWrite a v \<Rightarrow> Inr (s\<lparr>memory := (memory s)(a := v)\<rparr>))"

text \<open>
  A run: each step is an operation together with the answers the outside world gives
  during it, so the answers may change from one operation to the next.
\<close>

fun run :: "(env \<times> op) list \<Rightarrow> world \<Rightarrow> error + world" where
  "run [] s = Inr s"
| "run (step # rest) s =
     (case exec (fst step) (snd step) s of Inl err \<Rightarrow> Inl err | Inr s' \<Rightarrow> run rest s')"

section \<open>Properties of states and of the outside world\<close>

text \<open>The targets of the tracked hooks that use the virtual-table strategy, in table order.\<close>

definition vtable_targets :: "(Hook \<times> HookType) list \<Rightarrow> addr list" where
  "vtable_targets hooks = map (\<lambda>it. Target (fst it)) (filter (\<lambda>it. snd it = VTableHook) hooks)"

text \<open>
  The invariant of the slot table: the target of every tracked virtual-table hook is a
  key of the slot table, and no two tracked virtual-table hooks share a target.
\<close>

definition vtable_inv :: "world \<Rightarrow> bool" where
  "vtable_inv s =
     (list_all (\<lambda>t. sVTableAddresses s t \<noteq> None) (vtable_targets (sHooks s))
      \<and> distinct (vtable_targets (sHooks s)))"



text \<open>The strategy cannot fail: the export strategy, or a patcher that accepts every pair.\<close>

definition strategy_succeeds :: "env \<Rightarrow> HookType \<Rightarrow> bool" where
  "strategy_succeeds e method =
     (method = Export \<or> (method = FunctionHook \<and> (\<forall>t r. fst (patcher_install e t r) = Success)))"

section \<open>The bulk install as the specification words it\<close>

text \<open>
  A target export is hooked when it has a name and an address, some replacement export
  has the same name, and the name is not on the denylist.
\<close>

definition spec_hookable :: "env \<Rightarrow> ModuleExport list \<Rightarrow> ModuleExport \<Rightarrow> bool" where
  "spec_hookable e replacementExports symbol =
     (Name symbol \<noteq> 0 \<and> Address symbol \<noteq> 0
      \<and> list_ex (\<lambda>it. cstr e (Name it) = cstr e (Name symbol)) replacementExports
      \<and> \<not> uninteresting (cstr e (Name symbol)))"

text \<open>
  The hook for such an export: from the target export's address to the address of the
  first replacement export of that name, with the trampoline the strategy leaves.
\<close>

definition spec_hook :: "env \<Rightarrow> ModuleExport list \<Rightarrow> HookType \<Rightarrow> ModuleExport \<Rightarrow> Hook \<times> HookType" where
  "spec_hook e replacementExports method symbol =
     (let target = Address symbol;
          replacement =
            (case find (\<lambda>it. cstr e (Name it) = cstr e (Name symbol)) replacementExports of
               Some it \<Rightarrow> Address it | None \<Rightarrow> 0)
      in (\<lparr>Target = target, Replacement = replacement,
           Trampoline = (if method = FunctionHook
                         then snd (patcher_install e target replacement) else target)\<rparr>,
          method))"

section \<open>A small world to run the code in\<close>

text \<open>
  A target module mapped at \<open>0x80\<close> that exports \<open>Foo\<close> at \<open>0x100\<close> and \<open>Bar\<close> at \<open>0x200\<close>, and
  the replacement module, mapped at \<open>0x800\<close>, that exports \<open>Foo\<close> at \<open>0x900\<close> and \<open>Baz\<close> at
  \<open>0x910\<close>. Nothing else is an image.
\<close>

definition demo_target_image :: image where
  "demo_target_image =
     \<lparr>e_magic = 0x5A4D, nt_Signature = 0x4550, export_Size = 0x40,
      NumberOfNames = 2, NumberOfFunctions = 2, Base = 1,
      AddressOfNameOrdinals = (\<lambda>i. if i = 0 then 0 else 1),
      AddressOfNames = (\<lambda>i. if i = 0 then 0x10 else 0x14),
      AddressOfFunctions = (\<lambda>i. if i = 0 then 0x80 else 0x180)\<rparr>"

definition demo_replacement_image :: image where
  "demo_replacement_image =
     \<lparr>e_magic = 0x5A4D, nt_Signature = 0x4550, export_Size = 0x40,
      NumberOfNames = 2, NumberOfFunctions = 2, Base = 1,
      AddressOfNameOrdinals = (\<lambda>i. if i = 0 then 0 else 1),
      AddressOfNames = (\<lambda>i. if i = 0 then 0x10 else 0x14),
      AddressOfFunctions = (\<lambda>i. if i = 0 then 0x100 else 0x110)\<rparr>"

definition demo_no_image :: image where
  "demo_no_image =
     \<lparr>e_magic = 0, nt_Signature = 0, export_Size = 0,
      NumberOfNames = 0, NumberOfFunctions = 0, Base = 0,
      AddressOfNameOrdinals = (\<lambda>i. 0), AddressOfNames = (\<lambda>i. 0),
      AddressOfFunctions = (\<lambda>i. 0)\<rparr>"

definition demo_cstr :: "addr \<Rightarrow> string" where
  "demo_cstr a =
     (if a = 0x90 \<or> a = 0x810 then ''Foo''
      else if a = 0x94 then ''Bar''
      else if a = 0x814 then ''Baz'' else [])"

text \<open>The stem of a bare file name: what stands before the first dot.\<close>

definition demo_stem :: "path \<Rightarrow> string" where
  "demo_stem p = takeWhile (\<lambda>c. c \<noteq> CHR ''.'') p"

text \<open>
  Every protection change is granted, the patcher accepts every pair, no module is loaded
  yet, and the loader maps every file at \<open>0x80\<close>.
\<close>

definition demo_env :: env where
  "demo_env =
     \<lparr>ptr_size = 8,
      addr_LoadLibraryA = 0x7000, addr_LoadLibraryW = 0x7100,
      addr_HookLoadLibraryA = 0x8000, addr_HookLoadLibraryW = 0x8100,
      current_module = 0x800,
      module_file_name = (\<lambda>h. ''ReShade32.dll''),
      get_module_handle = (\<lambda>p. 0),
      load_library = (\<lambda>p. 0x80),
      invoke = (\<lambda>f p. if f = 0 then 0 else 0x80),
      image_at = (\<lambda>h. if h = 0x80 then demo_target_image
                       else if h = 0x800 then demo_replacement_image else demo_no_image),
      cstr = demo_cstr,
      path_stem = demo_stem,
      virtual_protect = (\<lambda>a p. True),
      patcher_install = (\<lambda>t r. (Success, t + 0x10000)),
      patcher_remove = (\<lambda>h. Success)\<rparr>"

text \<open>The same world, except that no page may be made writable.\<close>

definition demo_env_readonly :: env where
  "demo_env_readonly = demo_env\<lparr>virtual_protect := (\<lambda>a p. p = PAGE_READONLY)\<rparr>"

text \<open>Memory in which the cell at \<open>0x2000\<close> holds \<open>0x3000\<close>, and every other cell holds null.\<close>

definition demo_memory :: "addr \<Rightarrow> addr" where
  "demo_memory a = (if a = 0x2000 then 0x3000 else 0)"

definition demo_world :: world where
  "demo_world = init_world demo_memory"

text \<open>The world after \<open>Install(0x100, 0x900)\<close>: one function hook is tracked.\<close>

definition demo_hooked :: world where
  "demo_hooked =
     demo_world\<lparr>sHooks :=
       [(\<lparr>Target = 0x100, Replacement = 0x900, Trampoline = 0x10100\<rparr>, FunctionHook)]\<rparr>"

text \<open>The world after \<open>Register("d3d9.dll")\<close>: the two load-watch hooks, and the path pending.\<close>

definition demo_pending :: world where
  "demo_pending =
     demo_world\<lparr>sHooks :=
       [(\<lparr>Target = 0x7000, Replacement = 0x8000, Trampoline = 0x17000\<rparr>, FunctionHook),
        (\<lparr>Target = 0x7100, Replacement = 0x8100, Trampoline = 0x17100\<rparr>, FunctionHook)],
       sDelayedHookPaths := [''d3d9.dll'']\<rparr>"


text \<open>
  The world after \<open>Register("reshade32.dll")\<close>, the replacement module's own name, and a
  first \<open>Call\<close>: the export module is loaded at \<open>0x80\<close> and hooked with the export strategy.
\<close>

definition demo_export_loaded :: world where
  "demo_export_loaded =
     demo_world\<lparr>sExportHookModule := 0x80,
       sHooks :=
       [(\<lparr>Target = 0x7000, Replacement = 0x8000, Trampoline = 0x17000\<rparr>, FunctionHook),
        (\<lparr>Target = 0x7100, Replacement = 0x8100, Trampoline = 0x17100\<rparr>, FunctionHook),
        (\<lparr>Target = 0x100, Replacement = 0x900, Trampoline = 0x100\<rparr>, Export)]\<rparr>"

text \<open>That world after \<open>Uninstall()\<close>.\<close>

definition demo_uninstalled :: world where
  "demo_uninstalled = demo_world\<lparr>sExportHookModule := 0x80, free_library_calls := [0x80]\<rparr>"

text \<open>
  The cell at \<open>0x2008\<close>, the second slot of the table at \<open>0x2000\<close>, holds null. The world
  after the replacement \<open>0x900\<close> is installed into that slot: the hook recorded has a null
  target and a null trampoline.
\<close>

definition demo_null_slot :: world where
  "demo_null_slot =
     demo_world\<lparr>sHooks := [(\<lparr>Target = 0, Replacement = 0x900, Trampoline = 0\<rparr>, VTableHook)],
       sVTableAddresses := [0 \<mapsto> 0x2008],
       memory := demo_memory(0x2008 := 0x900)\<rparr>"



text \<open>
  Two worlds with a target module already loaded: in the first every path names the module
  at \<open>0x80\<close>; in the second every path names a module at \<open>0x60\<close> that exports \<open>Foo\<close> at
  \<open>0xE0\<close> and \<open>Bar\<close> at \<open>0x1E0\<close>.
\<close>

definition demo_env_first_target :: env where
  "demo_env_first_target = demo_env\<lparr>get_module_handle := (\<lambda>p. 0x80)\<rparr>"

definition demo_env_second_target :: env where
  "demo_env_second_target =
     demo_env\<lparr>get_module_handle := (\<lambda>p. 0x60),
       image_at := (\<lambda>h. if h = 0x60 then demo_target_image
                        else if h = 0x800 then demo_replacement_image else demo_no_image),
       cstr := (\<lambda>a. if a = 0x70 then ''Foo'' else if a = 0x74 then ''Bar'' else demo_cstr a)\<rparr>"

text \<open>The world after \<open>Register("d3d9.dll")\<close> in the first of them.\<close>

definition demo_one_target :: world where
  "demo_one_target =
     demo_world\<lparr>sHooks :=
       [(\<lparr>Target = 0x7000, Replacement = 0x8000, Trampoline = 0x17000\<rparr>, FunctionHook),
        (\<lparr>Target = 0x7100, Replacement = 0x8100, Trampoline = 0x17100\<rparr>, FunctionHook),
        (\<lparr>Target = 0x100, Replacement = 0x900, Trampoline = 0x10100\<rparr>, FunctionHook)]\<rparr>"

text \<open>
  The world after \<open>Register("d3d9.dll")\<close> in the first and \<open>Register("d3d11.dll")\<close> in the
  second: the replacement \<open>0x900\<close> is hooked to \<open>0x100\<close> and to \<open>0xE0\<close>.
\<close>

definition demo_two_targets :: world where
  "demo_two_targets =
     demo_world\<lparr>sHooks :=
       [(\<lparr>Target = 0x7000, Replacement = 0x8000, Trampoline = 0x17000\<rparr>, FunctionHook),
        (\<lparr>Target = 0x7100, Replacement = 0x8100, Trampoline = 0x17100\<rparr>, FunctionHook),
        (\<lparr>Target = 0x100, Replacement = 0x900, Trampoline = 0x10100\<rparr>, FunctionHook),
        (\<lparr>Target = 0xE0, Replacement = 0x900, Trampoline = 0x100E0\<rparr>, FunctionHook)]\<rparr>"

text \<open>
  Memory in which two slots, at \<open>0x2000\<close> and at \<open>0x2100\<close>, hold the same pointer \<open>0x3000\<close>,
  and the world after the replacement \<open>0x4000\<close> is installed into the first of them.
\<close>

definition demo_memory_shared :: "addr \<Rightarrow> addr" where
  "demo_memory_shared a = (if a = 0x2000 \<or> a = 0x2100 then 0x3000 else 0)"

definition demo_world_shared :: world where
  "demo_world_shared = init_world demo_memory_shared"

definition demo_shared_hooked :: world where
  "demo_shared_hooked =
     demo_world_shared\<lparr>sHooks :=
         [(\<lparr>Target = 0x3000, Replacement = 0x4000, Trampoline = 0x3000\<rparr>, VTableHook)],
       sVTableAddresses := [0x3000 \<mapsto> 0x2000],
       memory := demo_memory_shared(0x2000 := 0x4000)\<rparr>"

section \<open>Auxiliary notions for the proofs\<close>

text \<open>The hook that a successful install of a match records.\<close>

definition hook_of_match :: "env \<Rightarrow> HookType \<Rightarrow> addr \<times> addr \<Rightarrow> Hook \<times> HookType" where
  "hook_of_match e method m =
     (\<lparr>Target = fst m, Replacement = snd m,
       Trampoline = (if method = FunctionHook then snd (patcher_install e (fst m) (snd m)) else fst m)\<rparr>,
      method)"

definition match_of :: "env \<Rightarrow> ModuleExport list \<Rightarrow> ModuleExport \<Rightarrow> addr \<times> addr" where
  "match_of e replacementExports symbol =
     (Address symbol,
      case find (\<lambda>it. cstr e (Name it) = cstr e (Name symbol)) replacementExports of
        Some it \<Rightarrow> Address it | None \<Rightarrow> 0)"


text \<open>Two states with the same slot table and the same tracked virtual-table hooks.\<close>

definition vt_same :: "world \<Rightarrow> world \<Rightarrow> bool" where
  "vt_same s s' =
     (sVTableAddresses s' = sVTableAddresses s
      \<and> vtable_targets (sHooks s') = vtable_targets (sHooks s))"

text \<open>
  A result that is no \<^verbatim>\<open>std::out_of_range\<close> and, when it is a state, has the slot table and
  the tracked virtual-table hooks of the state before.
\<close>

definition vt_kept :: "world \<Rightarrow> error + world \<Rightarrow> bool" where
  "vt_kept s r = (case r of Inl err \<Rightarrow> err \<noteq> OutOfRange | Inr s' \<Rightarrow> vt_same s s')"

section \<open>Lemmas about the hook table\<close>

lemmas demo_defs = demo_env_def demo_world_def init_world_def demo_hooked_def demo_memory_def
  demo_env_readonly_def




lemma Install_method_FunctionHook:
  "Install_method e s t r FunctionHook =
     (case patcher_install e t r of
        (status, tramp) \<Rightarrow>
          if status = Success
          then Inr (True, s\<lparr>sHooks := sHooks s @
                 [(\<lparr>Target = t, Replacement = r, Trampoline = tramp\<rparr>, FunctionHook)]\<rparr>)
          else Inr (False, s))"
  by (simp add: Install_method_def Install_switch_def Hook_Install_def split: prod.splits)

lemma Install_method_Export:
  "Install_method e s t r Export =
     Inr (True, s\<lparr>sHooks := sHooks s @ [(\<lparr>Target = t, Replacement = r, Trampoline = t\<rparr>, Export)]\<rparr>)"
  by (simp add: Install_method_def Install_switch_def)




section \<open>Install followed by Find\<close>






section \<open>Installing a pair twice\<close>




section \<open>Installing a hooked replacement with another target\<close>

text \<open>
  Claim C4, as amended. When \<open>Find(r)\<close> returns an installed hook with target \<open>t\<close>, that is,
  when the first tracked hook whose replacement is \<open>r\<close> has its trampoline set and has
  target \<open>t\<close>, \<open>Install(t2, r)\<close> with non-null \<open>t2 \<noteq> t\<close> and non-null \<open>r\<close> returns false and
  leaves the whole state unchanged: that hook keeps its target, its trampoline and its
  table entry.
\<close>

theorem install_conflict_rejected:
  assumes "t2 \<noteq> 0" and "r \<noteq> 0"
    and "IsInstalled (Find s r)" and "Target (Find s r) = t" and "t2 \<noteq> t"
  shows "Install e s t2 r = Inr (False, s)"
  using assms by (simp add: Install_def)

theorem install_conflict_witness:
  "Install demo_env demo_hooked 0x200 0x900 = Inr (False, demo_hooked)"
proof -
  have "IsInstalled (Find demo_hooked 0x900)" "Target (Find demo_hooked 0x900) = 0x100"
    by (simp_all add: demo_defs Find_def IsInstalled_def)
  from install_conflict_rejected [OF _ _ this, of "0x200" demo_env] show ?thesis by simp
qed

section \<open>Export tables of modules without exports\<close>

text \<open>
  Claim C9. For a module whose DOS magic or NT signature is wrong, or whose export
  directory has size zero, \<open>GetModuleExports\<close> returns the empty sequence; it has no
  error result.
\<close>

theorem exports_empty_on_bad_header:
  assumes "e_magic (image_at e handle) \<noteq> IMAGE_DOS_SIGNATURE
         \<or> nt_Signature (image_at e handle) \<noteq> IMAGE_NT_SIGNATURE
         \<or> export_Size (image_at e handle) = 0"
  shows "GetModuleExports e handle = []"
  using assms by (auto simp: GetModuleExports_def Let_def)

theorem exports_empty_witness:
  "GetModuleExports demo_env 0x5000 = []"
  using exports_empty_on_bad_header [of demo_env "0x5000"]
  by (simp add: demo_defs demo_no_image_def IMAGE_DOS_SIGNATURE_def)

section \<open>The virtual-table strategy\<close>

lemma world_VT_restore:
  "sVTableAddresses s p = None \<Longrightarrow>
   s\<lparr>sVTableAddresses := ((sVTableAddresses s)(p \<mapsto> a))(p := None)\<rparr> = s"
  by (simp add: fun_upd_idem)

text \<open>
  Claim C8. The slot holds a pointer that is not yet a key of the slot table and differs
  from the replacement, the read-only probe is granted, and the change to read-write is
  refused. Then the strategy's status is \<open>MemoryProtectionFailure\<close>, the install returns
  false, and the state after it is the state before it: no hook is recorded and the
  slot-table entry inserted for the attempt is gone.
\<close>

theorem vtable_protect_failure_rolls_back:
  assumes "vtable \<noteq> 0" and "q \<noteq> 0"
    and slot: "slot = vtable + unat offset * ptr_size e"
    and ro: "virtual_protect e slot PAGE_READONLY"
    and rw: "\<not> virtual_protect e slot PAGE_READWRITE"
    and ne: "memory s slot \<noteq> q"
    and fresh: "sVTableAddresses s (memory s slot) = None"
  shows "Install_switch e (s\<lparr>sVTableAddresses := (sVTableAddresses s)(memory s slot \<mapsto> slot)\<rparr>)
           \<lparr>Target = memory s slot, Replacement = q, Trampoline = memory s slot\<rparr> VTableHook
         = Inr (MemoryProtectionFailure,
                \<lparr>Target = memory s slot, Replacement = q, Trampoline = memory s slot\<rparr>,
                s\<lparr>sVTableAddresses := (sVTableAddresses s)(memory s slot \<mapsto> slot)\<rparr>)
       \<and> Install_vtable e s vtable offset q = Inr (False, s)"
proof -
  let ?p = "memory s slot"
  let ?s1 = "s\<lparr>sVTableAddresses := (sVTableAddresses s)(?p \<mapsto> slot)\<rparr>"
  let ?hook = "\<lparr>Target = ?p, Replacement = q, Trampoline = ?p\<rparr>"
  have sw: "Install_switch e ?s1 ?hook VTableHook = Inr (MemoryProtectionFailure, ?hook, ?s1)"
    using rw by (simp add: Install_switch_def)
  then have im: "Install_method e ?s1 ?p q VTableHook = Inr (False, ?s1)"
    by (simp add: Install_method_def)
  have "Install_vtable e s vtable offset q =
          Inr (False, ?s1\<lparr>sVTableAddresses := (sVTableAddresses ?s1)(?p := None)\<rparr>)"
    using assms(1,2) ro ne fresh im
    by (simp add: Install_vtable_def slot[symmetric] Let_def)
  also have "?s1\<lparr>sVTableAddresses := (sVTableAddresses ?s1)(?p := None)\<rparr> = s"
    using world_VT_restore[OF fresh, of slot] by simp
  finally show ?thesis using sw by simp
qed

theorem vtable_protect_failure_witness:
  "Install_vtable demo_env_readonly demo_world 0x2000 0 0x4000 = Inr (False, demo_world)"
  using vtable_protect_failure_rolls_back
    [of "0x2000" "0x4000" "0x2000" 0 demo_env_readonly demo_world]
  by (simp add: demo_defs)

text \<open>
  Claim C7, as amended. A slot of a non-null table holds the non-null pointer \<open>p\<close>, which is
  not yet a key of the slot table, and the protection changes (the read-only probe and the
  change to read-write, at install and at uninstall) are granted. Installing the non-null
  replacement \<open>q \<noteq> p\<close> into the slot returns true, makes the slot hold \<open>q\<close>, records the slot
  under \<open>p\<close> and appends the hook from \<open>p\<close> to \<open>q\<close> to the table; uninstalling that hook
  returns true, clears its trampoline, writes \<open>p\<close> back into the slot and removes the
  slot-table entry for \<open>p\<close>.
\<close>

theorem vtable_round_trip:
  assumes "vtable \<noteq> 0" and "q \<noteq> 0" and "p \<noteq> 0" and "q \<noteq> p"
    and slot: "slot = vtable + unat offset * ptr_size e"
    and holds: "memory s slot = p"
    and fresh: "sVTableAddresses s p = None"
    and ro: "virtual_protect e slot PAGE_READONLY"
    and rw: "virtual_protect e slot PAGE_READWRITE"
    and rw': "virtual_protect e' slot PAGE_READWRITE"
    and hook: "hook = \<lparr>Target = p, Replacement = q, Trampoline = p\<rparr>"
  shows "\<exists>s1 s2. Install_vtable e s vtable offset q = Inr (True, s1)
           \<and> memory s1 slot = q \<and> sVTableAddresses s1 p = Some slot
           \<and> sHooks s1 = sHooks s @ [(hook, VTableHook)]
           \<and> Uninstall_hook e' s1 hook VTableHook = Inr (True, hook\<lparr>Trampoline := 0\<rparr>, s2)
           \<and> memory s2 slot = p \<and> sVTableAddresses s2 p = None"
proof -
  let ?s0 = "s\<lparr>sVTableAddresses := (sVTableAddresses s)(p \<mapsto> slot)\<rparr>"
  let ?s1 = "?s0\<lparr>memory := (memory s)(slot := q), sHooks := sHooks s @ [(hook, VTableHook)]\<rparr>"
  let ?s2 = "?s1\<lparr>memory := (memory ?s1)(slot := p),
                   sVTableAddresses := (sVTableAddresses ?s1)(p := None)\<rparr>"
  have im: "Install_method e ?s0 p q VTableHook = Inr (True, ?s1)"
    using rw by (simp add: Install_method_def Install_switch_def hook)
  have i: "Install_vtable e s vtable offset q = Inr (True, ?s1)"
    using assms(1,2,4) ro holds fresh im
    by (simp add: Install_vtable_def slot[symmetric] Let_def)
  have u: "Uninstall_hook e' ?s1 hook VTableHook = Inr (True, hook\<lparr>Trampoline := 0\<rparr>, ?s2)"
    using rw' assms(3) by (simp add: Uninstall_hook_def IsInstalled_def hook)
  show ?thesis
    by (rule exI[of _ ?s1], rule exI[of _ ?s2]) (use i u in simp)
qed

text \<open>The scenario of the specification: the slot at \<open>0x2000\<close> holds \<open>0x3000\<close>, the replacement is \<open>0x4000\<close>.\<close>

theorem vtable_round_trip_witness:
  "\<exists>s1 s2. Install_vtable demo_env demo_world 0x2000 0 0x4000 = Inr (True, s1)
     \<and> memory s1 0x2000 = 0x4000 \<and> sVTableAddresses s1 0x3000 = Some 0x2000
     \<and> sHooks s1 = [(\<lparr>Target = 0x3000, Replacement = 0x4000, Trampoline = 0x3000\<rparr>, VTableHook)]
     \<and> Uninstall_hook demo_env s1 \<lparr>Target = 0x3000, Replacement = 0x4000, Trampoline = 0x3000\<rparr> VTableHook
         = Inr (True, \<lparr>Target = 0x3000, Replacement = 0x4000, Trampoline = 0\<rparr>, s2)
     \<and> memory s2 0x2000 = 0x3000 \<and> sVTableAddresses s2 0x3000 = None"
  using vtable_round_trip [of "0x2000" "0x4000" "0x3000" "0x2000" 0 demo_env demo_world demo_env
      "\<lparr>Target = 0x3000, Replacement = 0x4000, Trampoline = 0x3000\<rparr>"]
  by (simp add: demo_defs)

section \<open>Evaluating the small world\<close>

lemma demo_env_fields:
  "cstr demo_env = demo_cstr"
  "patcher_install demo_env = (\<lambda>t r. (Success, t + 0x10000))"
  "patcher_remove demo_env = (\<lambda>h. Success)"
  "current_module demo_env = 0x800"
  "image_at demo_env = (\<lambda>h. if h = 0x80 then demo_target_image
                       else if h = 0x800 then demo_replacement_image else demo_no_image)"
  "addr_LoadLibraryA demo_env = 0x7000" "addr_LoadLibraryW demo_env = 0x7100"
  "addr_HookLoadLibraryA demo_env = 0x8000" "addr_HookLoadLibraryW demo_env = 0x8100"
  "module_file_name demo_env = (\<lambda>h. ''ReShade32.dll'')"
  "get_module_handle demo_env = (\<lambda>p. 0)"
  "load_library demo_env = (\<lambda>p. 0x80)"
  "invoke demo_env = (\<lambda>f p. if f = 0 then 0 else 0x80)"
  "path_stem demo_env = demo_stem"
  "virtual_protect demo_env = (\<lambda>a p. True)"
  "ptr_size demo_env = 8"
  by (simp_all add: demo_env_def)

lemma upt2: "[0..<2] = [0, Suc 0]"
  by (simp add: upt_rec)

lemma demo_target_exports:
  "GetModuleExports demo_env 0x80 =
     [\<lparr>Address = 0x100, Name = 0x90, Ordinal = 1\<rparr>, \<lparr>Address = 0x200, Name = 0x94, Ordinal = 2\<rparr>]"
  by (simp add: GetModuleExports_def demo_env_fields demo_target_image_def export_symbol_def
      IMAGE_DOS_SIGNATURE_def IMAGE_NT_SIGNATURE_def Let_def upt2)

lemma demo_replacement_exports:
  "GetModuleExports demo_env 0x800 =
     [\<lparr>Address = 0x900, Name = 0x810, Ordinal = 1\<rparr>, \<lparr>Address = 0x910, Name = 0x814, Ordinal = 2\<rparr>]"
  by (simp add: GetModuleExports_def demo_env_fields demo_replacement_image_def export_symbol_def
      IMAGE_DOS_SIGNATURE_def IMAGE_NT_SIGNATURE_def Let_def upt2)

lemma demo_world_fields:
  "sHooks demo_world = []" "sDelayedHookPaths demo_world = []" "sExportHookPath demo_world = []"
  "sExportHookModule demo_world = 0" "free_library_calls demo_world = []"
  "sVTableAddresses demo_world = Map.empty" "memory demo_world = demo_memory"
  by (simp_all add: demo_world_def init_world_def)

lemma demo_names:
  "map (\<lambda>x. cstr demo_env (Name x)) (GetModuleExports demo_env 0x80) = [''Foo'', ''Bar'']"
  "map (\<lambda>x. cstr demo_env (Name x)) (GetModuleExports demo_env 0x800) = [''Foo'', ''Baz'']"
  by (simp_all add: demo_target_exports demo_replacement_exports demo_env_fields demo_cstr_def)

lemma demo_bulk:
  "Install_modules demo_env demo_world 0x80 0x800 FunctionHook = Inr (True, demo_hooked)"
  by (simp add: Install_modules_def demo_target_exports demo_replacement_exports
      Install_method_def Install_switch_def Hook_Install_def uninteresting_def
      demo_env_fields demo_cstr_def demo_hooked_def demo_world_fields)

lemma demo_stem_1: "iequals (demo_stem ''d3d9.dll'') (demo_stem ''D3D9.DLL'')"
  by code_simp

lemma demo_stem_2: "\<not> iequals (demo_stem ''d3d9.dll'') (demo_stem ''ReShade32.dll'')"
  by code_simp

lemma demo_stem_3: "iequals (demo_stem ''reshade32.dll'') (demo_stem ''ReShade32.dll'')"
  by code_simp

lemmas demo_stems = demo_stem_1 demo_stem_2 demo_stem_3







lemma demo_Register_self:
  "Register demo_env demo_world ''reshade32.dll''
     = Inr (demo_pending\<lparr>sDelayedHookPaths := [], sExportHookPath := ''reshade32.dll''\<rparr>)"
  by (simp add: Register_def Install_def Find_def Install_method_FunctionHook demo_env_fields
      demo_world_fields IsInstalled_def Hook_empty_def demo_stems demo_pending_def)

lemma demo_Call_export:
  "Call demo_env (demo_pending\<lparr>sDelayedHookPaths := [], sExportHookPath := ''reshade32.dll''\<rparr>) 0x900
     = Inr (0x100, demo_export_loaded)"
  by (simp add: Call_def resolve_export_hook_def Find_def demo_pending_def demo_world_fields
      IsValid_def Hook_Call_def demo_env_fields Install_modules_def demo_target_exports
      demo_replacement_exports Install_method_Export uninteresting_def demo_cstr_def
      demo_export_loaded_def)

lemma demo_Uninstall_1:
  "Uninstall demo_env demo_export_loaded = Inr demo_uninstalled"
  by (simp add: Uninstall_def Uninstall_hook_def IsInstalled_def Hook_Uninstall_def
      demo_export_loaded_def demo_uninstalled_def demo_env_fields demo_world_fields)

lemma demo_Uninstall_2:
  "Uninstall demo_env demo_uninstalled
     = Inr (demo_uninstalled\<lparr>free_library_calls := [0x80, 0x80]\<rparr>)"
  by (simp add: Uninstall_def demo_uninstalled_def demo_world_fields)

section \<open>Where the claims as stated fail\<close>

lemma demo_null_slot_install:
  "Install_vtable demo_env demo_world 0x2000 1 0x900 = Inr (True, demo_null_slot)"
  by (simp add: Install_vtable_def Install_method_def Install_switch_def demo_env_fields
      demo_world_fields demo_memory_def demo_null_slot_def)

lemma demo_null_slot_fields:
  "sHooks demo_null_slot = [(\<lparr>Target = 0, Replacement = 0x900, Trampoline = 0\<rparr>, VTableHook)]"
  "sVTableAddresses demo_null_slot = [0 \<mapsto> 0x2008]"
  "memory demo_null_slot = demo_memory(0x2008 := 0x900)"
  by (simp_all add: demo_null_slot_def)



lemma demo_null_slot_uninstall:
  "Uninstall_hook demo_env demo_null_slot \<lparr>Target = 0, Replacement = 0x900, Trampoline = 0\<rparr> VTableHook
     = Inr (True, \<lparr>Target = 0, Replacement = 0x900, Trampoline = 0\<rparr>, demo_null_slot)"
  by (simp add: Uninstall_hook_def IsInstalled_def)


lemma demo_shared_install:
  "Install_vtable demo_env demo_world_shared 0x2000 0 0x4000 = Inr (True, demo_shared_hooked)"
  by (simp add: Install_vtable_def Install_method_def Install_switch_def demo_env_fields
      demo_world_shared_def init_world_def demo_memory_shared_def demo_shared_hooked_def)

lemma demo_shared_again:
  "Install_vtable demo_env demo_shared_hooked 0x2100 0 0x4000 = Inr (True, demo_shared_hooked)"
  by (simp add: Install_vtable_def demo_env_fields demo_shared_hooked_def
      demo_world_shared_def init_world_def demo_memory_shared_def)

text \<open>
  Claim C7 as stated fails. With \<open>0x3000\<close> already a key of the slot table, installing
  \<open>0x4000\<close> into a second slot that holds \<open>0x3000\<close> returns true and writes nothing: the slot
  at \<open>0x2100\<close> keeps holding \<open>0x3000\<close>. And for the slot at \<open>0x2008\<close>, which holds null, the
  hook recorded has a null trampoline: uninstalling it returns true, leaves \<open>0x900\<close> in the
  slot and keeps the slot-table entry.
\<close>

theorem vtable_round_trip_counterexample:
  "Install_vtable demo_env demo_world_shared 0x2000 0 0x4000 = Inr (True, demo_shared_hooked)
   \<and> memory demo_shared_hooked 0x2100 = 0x3000
   \<and> Install_vtable demo_env demo_shared_hooked 0x2100 0 0x4000 = Inr (True, demo_shared_hooked)
   \<and> memory demo_world 0x2008 = 0
   \<and> Install_vtable demo_env demo_world 0x2000 1 0x900 = Inr (True, demo_null_slot)
   \<and> Uninstall_hook demo_env demo_null_slot
         \<lparr>Target = 0, Replacement = 0x900, Trampoline = 0\<rparr> VTableHook
       = Inr (True, \<lparr>Target = 0, Replacement = 0x900, Trampoline = 0\<rparr>, demo_null_slot)
   \<and> memory demo_null_slot 0x2008 = 0x900
   \<and> sVTableAddresses demo_null_slot 0 = Some 0x2008"
  using demo_shared_install demo_shared_again demo_null_slot_install demo_null_slot_uninstall
  by (simp add: demo_shared_hooked_def demo_memory_shared_def demo_null_slot_fields
      demo_world_fields demo_memory_def)

lemma demo_env_first_fields:
  "cstr demo_env_first_target = demo_cstr"
  "patcher_install demo_env_first_target = (\<lambda>t r. (Success, t + 0x10000))"
  "current_module demo_env_first_target = 0x800"
  "addr_LoadLibraryA demo_env_first_target = 0x7000" "addr_LoadLibraryW demo_env_first_target = 0x7100"
  "addr_HookLoadLibraryA demo_env_first_target = 0x8000"
  "addr_HookLoadLibraryW demo_env_first_target = 0x8100"
  "module_file_name demo_env_first_target = (\<lambda>h. ''ReShade32.dll'')"
  "get_module_handle demo_env_first_target = (\<lambda>p. 0x80)"
  "path_stem demo_env_first_target = demo_stem"
  by (simp_all add: demo_env_first_target_def demo_env_def)

lemma demo_env_second_fields:
  "cstr demo_env_second_target =
     (\<lambda>a. if a = 0x70 then ''Foo'' else if a = 0x74 then ''Bar'' else demo_cstr a)"
  "patcher_install demo_env_second_target = (\<lambda>t r. (Success, t + 0x10000))"
  "current_module demo_env_second_target = 0x800"
  "addr_LoadLibraryA demo_env_second_target = 0x7000" "addr_LoadLibraryW demo_env_second_target = 0x7100"
  "addr_HookLoadLibraryA demo_env_second_target = 0x8000"
  "addr_HookLoadLibraryW demo_env_second_target = 0x8100"
  "module_file_name demo_env_second_target = (\<lambda>h. ''ReShade32.dll'')"
  "get_module_handle demo_env_second_target = (\<lambda>p. 0x60)"
  "path_stem demo_env_second_target = demo_stem"
  "image_at demo_env_second_target =
     (\<lambda>h. if h = 0x60 then demo_target_image
          else if h = 0x800 then demo_replacement_image else demo_no_image)"
  by (simp_all add: demo_env_second_target_def demo_env_def)

lemma demo_first_exports:
  "GetModuleExports demo_env_first_target 0x80 = GetModuleExports demo_env 0x80"
  "GetModuleExports demo_env_first_target 0x800 = GetModuleExports demo_env 0x800"
  by (simp_all add: GetModuleExports_def demo_env_first_target_def)

lemma demo_second_exports:
  "GetModuleExports demo_env_second_target 0x60 =
     [\<lparr>Address = 0xE0, Name = 0x70, Ordinal = 1\<rparr>, \<lparr>Address = 0x1E0, Name = 0x74, Ordinal = 2\<rparr>]"
  "GetModuleExports demo_env_second_target 0x800 =
     [\<lparr>Address = 0x900, Name = 0x810, Ordinal = 1\<rparr>, \<lparr>Address = 0x910, Name = 0x814, Ordinal = 2\<rparr>]"
  by (simp_all add: GetModuleExports_def demo_env_second_fields demo_target_image_def
      demo_replacement_image_def export_symbol_def
      IMAGE_DOS_SIGNATURE_def IMAGE_NT_SIGNATURE_def Let_def upt2)

lemma demo_stem_4: "\<not> iequals (demo_stem ''d3d11.dll'') (demo_stem ''ReShade32.dll'')"
  by code_simp

lemma demo_Register_first:
  "Register demo_env_first_target demo_world ''d3d9.dll'' = Inr demo_one_target"
  by (simp add: Register_def Install_def Find_def Install_method_FunctionHook demo_env_first_fields
      demo_world_fields IsInstalled_def Hook_empty_def demo_stems demo_one_target_def
      Install_modules_def demo_first_exports demo_target_exports demo_replacement_exports
      uninteresting_def demo_cstr_def)

lemma demo_Register_second:
  "Register demo_env_second_target demo_one_target ''d3d11.dll'' = Inr demo_two_targets"
  by (simp add: Register_def Install_def Find_def Install_method_FunctionHook demo_env_second_fields
      demo_world_fields IsInstalled_def Hook_empty_def demo_stem_4 demo_one_target_def
      demo_two_targets_def Install_modules_def demo_second_exports
      uninteresting_def demo_cstr_def)

text \<open>
  Claim C4 as stated fails. After two modules that both export \<open>Foo\<close> are registered, the
  replacement \<open>0x900\<close> is hooked to \<open>0x100\<close> and to \<open>0xE0\<close>. \<open>Install(0x100, 0x900)\<close>, whose
  target differs from \<open>0xE0\<close>, returns true.
\<close>

theorem install_conflict_counterexample:
  "run [(demo_env_first_target, OpRegister ''d3d9.dll''),
        (demo_env_second_target, OpRegister ''d3d11.dll'')] demo_world = Inr demo_two_targets
   \<and> (\<lparr>Target = 0xE0, Replacement = 0x900, Trampoline = 0x100E0\<rparr>, FunctionHook)
         \<in> set (sHooks demo_two_targets)
   \<and> Install demo_env demo_two_targets 0x100 0x900 = Inr (True, demo_two_targets)"
  by (simp add: exec_def demo_Register_first demo_Register_second)
     (simp add: demo_two_targets_def Install_def Find_def IsInstalled_def demo_world_fields)

section \<open>The bulk install\<close>

lemma find_None_list_ex: "find P xs = None \<longleftrightarrow> \<not> list_ex P xs"
  by (induction xs) auto

lemma analyze_exports_spec:
  "analyze_exports e texp rexp acc =
     acc @ map (match_of e rexp) (filter (spec_hookable e rexp) texp)"
proof (induction texp arbitrary: acc)
  case Nil
  then show ?case by simp
next
  case (Cons symbol rest)
  show ?case
  proof (cases "find (\<lambda>it. cstr e (Name it) = cstr e (Name symbol)) rexp")
    case None
    then have "\<not> spec_hookable e rexp symbol"
      by (simp add: spec_hookable_def find_None_list_ex)
    then show ?thesis using None Cons.IH by simp
  next
    case (Some it)
    then have ex: "list_ex (\<lambda>it. cstr e (Name it) = cstr e (Name symbol)) rexp"
      using find_None_list_ex[of "\<lambda>it. cstr e (Name it) = cstr e (Name symbol)" rexp] by simp
    show ?thesis
      using Some ex Cons.IH by (simp add: spec_hookable_def match_of_def)
  qed
qed

lemma Install_method_succeeds:
  assumes "strategy_succeeds e method"
  shows "Install_method e s t r method =
           Inr (True, s\<lparr>sHooks := sHooks s @ [hook_of_match e method (t, r)]\<rparr>)"
proof -
  from assms consider "method = Export"
    | "method = FunctionHook" "fst (patcher_install e t r) = Success"
    by (auto simp: strategy_succeeds_def)
  then show ?thesis
  proof cases
    case 1
    then show ?thesis
      by (simp add: Install_method_def Install_switch_def hook_of_match_def)
  next
    case 2
    then show ?thesis
      by (cases "patcher_install e t r")
         (simp add: Install_method_def Install_switch_def Hook_Install_def hook_of_match_def)
  qed
qed

lemma install_matches_succeeds:
  assumes "strategy_succeeds e method"
  shows "install_matches e s ms method c =
           Inr (c + length ms, s\<lparr>sHooks := sHooks s @ map (hook_of_match e method) ms\<rparr>)"
proof (induction ms arbitrary: s c)
  case Nil
  then show ?case by simp
next
  case (Cons m ms)
  show ?case
    using Install_method_succeeds[OF assms, of s "fst m" "snd m"] Cons.IH
    by simp
qed

lemma hook_of_match_spec:
  "hook_of_match e method (match_of e rexp symbol) = spec_hook e rexp method symbol"
  by (simp add: hook_of_match_def match_of_def spec_hook_def Let_def)

lemma bulk_general:
  assumes "targetModule \<noteq> 0" and "replacementModule \<noteq> 0" and "strategy_succeeds e method"
  shows "Install_modules e s targetModule replacementModule method =
      Inr (filter (spec_hookable e (GetModuleExports e replacementModule))
                  (GetModuleExports e targetModule) \<noteq> [],
           s\<lparr>sHooks := sHooks s @
               map (spec_hook e (GetModuleExports e replacementModule) method)
                 (filter (spec_hookable e (GetModuleExports e replacementModule))
                    (GetModuleExports e targetModule))\<rparr>)"
proof (cases "GetModuleExports e targetModule = []")
  case True
  then show ?thesis using assms(1,2) by (simp add: Install_modules_def)
next
  case False
  then show ?thesis
    using assms(1,2) install_matches_succeeds[OF assms(3)]
    by (simp add: Install_modules_def Let_def analyze_exports_spec hook_of_match_spec
        comp_def)
qed

text \<open>
  Claim C5. With a strategy that cannot fail, the bulk install over a pair of modules
  records exactly one hook for every target export that has a name and an address, has a
  replacement export of the same name (compared as strings, case-sensitively) and is not
  on the denylist, in the order of the target's export table, and it reports whether
  there was one. In particular, for the target exports \<open>Foo\<close> at \<open>0x100\<close> and \<open>Bar\<close> at
  \<open>0x200\<close> and the replacement exports \<open>Foo\<close> at \<open>0x900\<close> and \<open>Baz\<close> at \<open>0x910\<close> it records
  exactly one hook, from \<open>0x100\<close> to \<open>0x900\<close>.
\<close>

theorem bulk_install_exact:
  "(targetModule \<noteq> 0 \<and> replacementModule \<noteq> 0 \<and> strategy_succeeds e method \<longrightarrow>
      Install_modules e s targetModule replacementModule method =
        Inr (filter (spec_hookable e (GetModuleExports e replacementModule))
                    (GetModuleExports e targetModule) \<noteq> [],
             s\<lparr>sHooks := sHooks s @
                 map (spec_hook e (GetModuleExports e replacementModule) method)
                   (filter (spec_hookable e (GetModuleExports e replacementModule))
                      (GetModuleExports e targetModule))\<rparr>))
   \<and> map (\<lambda>x. (cstr demo_env (Name x), Address x)) (GetModuleExports demo_env 0x80)
       = [(''Foo'', 0x100), (''Bar'', 0x200)]
   \<and> map (\<lambda>x. (cstr demo_env (Name x), Address x)) (GetModuleExports demo_env 0x800)
       = [(''Foo'', 0x900), (''Baz'', 0x910)]
   \<and> Install_modules demo_env demo_world 0x80 0x800 FunctionHook
       = Inr (True, demo_world\<lparr>sHooks :=
           [(\<lparr>Target = 0x100, Replacement = 0x900, Trampoline = 0x10100\<rparr>, FunctionHook)]\<rparr>)"
proof -
  have "map (\<lambda>x. (cstr demo_env (Name x), Address x)) (GetModuleExports demo_env 0x80)
          = [(''Foo'', 0x100), (''Bar'', 0x200)]"
    by (simp add: demo_target_exports demo_env_fields demo_cstr_def)
  moreover have "map (\<lambda>x. (cstr demo_env (Name x), Address x)) (GetModuleExports demo_env 0x800)
          = [(''Foo'', 0x900), (''Baz'', 0x910)]"
    by (simp add: demo_replacement_exports demo_env_fields demo_cstr_def)
  moreover have "Install_modules demo_env demo_world 0x80 0x800 FunctionHook
       = Inr (True, demo_world\<lparr>sHooks :=
           [(\<lparr>Target = 0x100, Replacement = 0x900, Trampoline = 0x10100\<rparr>, FunctionHook)]\<rparr>)"
    using demo_bulk by (simp add: demo_hooked_def)
  ultimately show ?thesis using bulk_general by blast
qed

text \<open>The same pair of modules under the export strategy.\<close>

theorem bulk_install_witness:
  "Install_modules demo_env demo_world 0x80 0x800 Export
     = Inr (True, demo_world\<lparr>sHooks :=
         [(\<lparr>Target = 0x100, Replacement = 0x900, Trampoline = 0x100\<rparr>, Export)]\<rparr>)"
proof -
  have "strategy_succeeds demo_env Export" by (simp add: strategy_succeeds_def)
  with bulk_install_exact [of "0x80" "0x800" demo_env Export demo_world]
  show ?thesis
    by (simp add: demo_target_exports demo_replacement_exports spec_hookable_def spec_hook_def
        demo_env_fields demo_cstr_def uninteresting_def demo_world_fields)
qed

section \<open>Delayed hooks\<close>

lemma Install_method_frame:
  assumes "method \<noteq> VTableHook"
  shows "\<exists>new. Install_method e s t r method = Inr (new \<noteq> [], s\<lparr>sHooks := sHooks s @ new\<rparr>)
           \<and> list_all (\<lambda>it. snd it = method \<and> Target (fst it) = t \<and> Replacement (fst it) = r) new
           \<and> length new \<le> 1"
proof (cases "method")
  case Export
  show ?thesis
    unfolding Export Install_method_Export
    by (rule exI[of _ "[(\<lparr>Target = t, Replacement = r, Trampoline = t\<rparr>, Export)]"]) simp
next
  case FunctionHook
  obtain status tramp where p: "patcher_install e t r = (status, tramp)"
    by (cases "patcher_install e t r")
  show ?thesis
  proof (cases "status = Success")
    case True
    show ?thesis
      unfolding FunctionHook Install_method_FunctionHook
      by (rule exI[of _ "[(\<lparr>Target = t, Replacement = r, Trampoline = tramp\<rparr>, FunctionHook)]"])
         (simp add: p True)
  next
    case False
    show ?thesis
      unfolding FunctionHook Install_method_FunctionHook
      by (rule exI[of _ "[]"]) (simp add: p False)
  qed
next
  case VTableHook
  with assms show ?thesis by simp
qed

lemma install_matches_frame:
  assumes "method \<noteq> VTableHook"
  shows "\<exists>new. install_matches e s ms method c = Inr (c + length new, s\<lparr>sHooks := sHooks s @ new\<rparr>)
           \<and> list_all (\<lambda>it. snd it = method) new"
proof (induction ms arbitrary: s c)
  case Nil
  show ?case by (rule exI[of _ "[]"]) simp
next
  case (Cons m ms)
  from Install_method_frame[OF assms, of e s "fst m" "snd m"] obtain new1 where
    n1: "Install_method e s (fst m) (snd m) method = Inr (new1 \<noteq> [], s\<lparr>sHooks := sHooks s @ new1\<rparr>)"
    and l1: "list_all (\<lambda>it. snd it = method) new1"
    and len1: "length new1 \<le> 1"
    by (auto simp: list_all_iff)
  let ?s1 = "s\<lparr>sHooks := sHooks s @ new1\<rparr>"
  have c1: "(if new1 \<noteq> [] then c + 1 else c) = c + length new1"
    using len1 by (cases new1) auto
  from Cons.IH[of ?s1 "c + length new1"] obtain new2 where
    n2: "install_matches e ?s1 ms method (c + length new1) =
           Inr (c + length new1 + length new2, ?s1\<lparr>sHooks := sHooks ?s1 @ new2\<rparr>)"
    and l2: "list_all (\<lambda>it. snd it = method) new2"
    by blast
  show ?case
    by (rule exI[of _ "new1 @ new2"]) (use n1 n2 l1 l2 c1 in simp)
qed

lemma Install_modules_frame:
  assumes "method \<noteq> VTableHook" and "targetModule \<noteq> 0" and "replacementModule \<noteq> 0"
  shows "\<exists>new. Install_modules e s targetModule replacementModule method =
                  Inr (new \<noteq> [], s\<lparr>sHooks := sHooks s @ new\<rparr>)
           \<and> list_all (\<lambda>it. snd it = method) new"
proof (cases "GetModuleExports e targetModule = []")
  case True
  show ?thesis
    by (rule exI[of _ "[]"]) (use True assms in \<open>simp add: Install_modules_def\<close>)
next
  case False
  from install_matches_frame[OF assms(1), of e s
      "analyze_exports e (GetModuleExports e targetModule) (GetModuleExports e replacementModule) []" 0]
  obtain new where
    n: "install_matches e s
          (analyze_exports e (GetModuleExports e targetModule) (GetModuleExports e replacementModule) [])
          method 0 = Inr (0 + length new, s\<lparr>sHooks := sHooks s @ new\<rparr>)"
    and l: "list_all (\<lambda>it. snd it = method) new"
    by blast
  show ?thesis
    by (rule exI[of _ new]) (use False assms n l in \<open>simp add: Install_modules_def Let_def\<close>)
qed

lemma Install_frame:
  assumes "t \<noteq> 0" and "r \<noteq> 0"
  shows "\<exists>ok new. Install e s t r = Inr (ok, s\<lparr>sHooks := sHooks s @ new\<rparr>)
           \<and> list_all (\<lambda>it. snd it = FunctionHook \<and> Target (fst it) = t \<and> Replacement (fst it) = r) new"
proof (cases "t = r \<or> IsInstalled (Find s r)")
  case True
  then have "Install e s t r = Inr (t \<noteq> r \<and> t = Target (Find s r), s\<lparr>sHooks := sHooks s @ []\<rparr>)"
    using assms by (auto simp: Install_def Let_def)
  then show ?thesis
    by (intro exI[of _ "t \<noteq> r \<and> t = Target (Find s r)"] exI[of _ "[]"]) simp
next
  case False
  then have "Install e s t r = Install_method e s t r FunctionHook"
    using assms by (simp add: Install_def)
  then show ?thesis
    using Install_method_frame[of FunctionHook e s t r] by auto
qed






section \<open>Uninstalling twice\<close>

lemma Uninstall_hook_module:
  "Uninstall_hook e s h m = Inr (ok, h', s') \<Longrightarrow>
   sExportHookModule s' = sExportHookModule s \<and> free_library_calls s' = free_library_calls s"
  by (auto simp: Uninstall_hook_def split: if_splits HookType.splits option.splits)

lemma Uninstall_loop_module:
  "Uninstall_loop e visited rest s = Inr (visited', s') \<Longrightarrow>
   sExportHookModule s' = sExportHookModule s \<and> free_library_calls s' = free_library_calls s"
proof (induction rest arbitrary: visited s)
  case Nil
  then show ?case by simp
next
  case (Cons it rest)
  then show ?case
    by (auto split: sum.splits dest!: Uninstall_hook_module)
qed

text \<open>
  Claim C2, as the code has it. \<open>Uninstall()\<close> empties the hook table. A second
  \<open>Uninstall()\<close> returns and changes nothing only when no export module was loaded;
  when one was, the handle is still set after the first call, and the second call passes
  it to \<^verbatim>\<open>FreeLibrary\<close> once more.
\<close>

theorem uninstall_twice:
  assumes "Uninstall e s = Inr s1"
  shows "sHooks s1 = []
       \<and> Uninstall e' s1 =
           Inr (if sExportHookModule s = 0 then s1
                else s1\<lparr>free_library_calls := free_library_calls s1 @ [sExportHookModule s]\<rparr>)"
proof -
  from assms obtain visited s0 where
    l: "Uninstall_loop e [] (sHooks s) s = Inr (visited, s0)"
    by (auto simp: Uninstall_def split: sum.splits)
  from Uninstall_loop_module[OF l] have m: "sExportHookModule s0 = sExportHookModule s" by simp
  have s1: "s1 = (if sExportHookModule s \<noteq> 0
                  then s0\<lparr>sHooks := [], free_library_calls := free_library_calls s0 @ [sExportHookModule s]\<rparr>
                  else s0\<lparr>sHooks := []\<rparr>)"
    using assms l m by (auto simp: Uninstall_def Let_def)
  then have emp: "sHooks s1 = []" and m1: "sExportHookModule s1 = sExportHookModule s"
    using m by (auto split: if_splits)
  have "Uninstall e' s1 =
           Inr (if sExportHookModule s = 0 then s1
                else s1\<lparr>free_library_calls := free_library_calls s1 @ [sExportHookModule s]\<rparr>)"
    using m1 emp by (cases "sExportHookModule s = 0") (simp_all add: Uninstall_def Let_def)
  with emp show ?thesis by simp
qed

text \<open>
  The failing input: after \<open>Register("reshade32.dll")\<close> and a first \<open>Call\<close> the export module
  is loaded at \<open>0x80\<close>; the first \<open>Uninstall()\<close> frees it, and the second frees it again.
\<close>

theorem uninstall_twice_witness:
  "run [(demo_env, OpRegister ''reshade32.dll''), (demo_env, OpCall 0x900)] demo_world
     = Inr demo_export_loaded
   \<and> Uninstall demo_env demo_export_loaded = Inr demo_uninstalled
   \<and> free_library_calls demo_uninstalled = [0x80]
   \<and> Uninstall demo_env demo_uninstalled
       = Inr (demo_uninstalled\<lparr>free_library_calls := [0x80, 0x80]\<rparr>)"
proof -
  have r: "run [(demo_env, OpRegister ''reshade32.dll''), (demo_env, OpCall 0x900)] demo_world
             = Inr demo_export_loaded"
    by (simp add: exec_def demo_Register_self demo_Call_export state_of_def)
  have m: "sExportHookModule demo_export_loaded = 0x80"
    by (simp add: demo_export_loaded_def)
  from uninstall_twice [OF demo_Uninstall_1, of demo_env] r demo_Uninstall_1 m
  show ?thesis
    by (simp add: demo_uninstalled_def demo_world_fields)
qed

section \<open>The invariant of the slot table\<close>

lemma vtable_targets_append_other:
  "list_all (\<lambda>it. snd it \<noteq> VTableHook) new \<Longrightarrow> vtable_targets (hooks @ new) = vtable_targets hooks"
  by (induction new) (auto simp: vtable_targets_def)

lemma vt_same_refl: "vt_same s s"
  by (simp add: vt_same_def)

lemma vt_same_trans: "vt_same s s1 \<Longrightarrow> vt_same s1 s2 \<Longrightarrow> vt_same s s2"
  by (simp add: vt_same_def)

lemma vt_same_append:
  "list_all (\<lambda>it. snd it = method) new \<Longrightarrow> method \<noteq> VTableHook \<Longrightarrow>
   vt_same s (s\<lparr>sHooks := sHooks s @ new\<rparr>)"
  by (simp add: vt_same_def vtable_targets_append_other list_all_iff)

lemma vt_same_inv: "vt_same s s' \<Longrightarrow> vtable_inv s \<Longrightarrow> vtable_inv s'"
  by (simp add: vt_same_def vtable_inv_def)

lemma vt_kept_bind:
  assumes "vt_kept s r"
    and "\<And>s1. r = Inr s1 \<Longrightarrow> vt_same s s1 \<Longrightarrow> vt_kept s1 (f s1)"
  shows "vt_kept s (case r of Inl err \<Rightarrow> Inl err | Inr s1 \<Rightarrow> f s1)"
proof (cases r)
  case (Inl err)
  with assms(1) show ?thesis by (simp add: vt_kept_def)
next
  case (Inr s1)
  with assms(1) have same: "vt_same s s1" by (simp add: vt_kept_def)
  from assms(2)[OF Inr same] have "vt_kept s1 (f s1)" .
  with same show ?thesis
    by (auto simp: Inr vt_kept_def split: sum.splits intro: vt_same_trans)
qed

lemma vt_kept_Install: "vt_kept s (state_of (Install e s t r))"
proof (cases "t = 0 \<or> r = 0")
  case True
  then show ?thesis by (auto simp: Install_def state_of_def vt_kept_def)
next
  case False
  with Install_frame[of t r e s] obtain ok new where
    i: "Install e s t r = Inr (ok, s\<lparr>sHooks := sHooks s @ new\<rparr>)"
    and l: "list_all (\<lambda>it. snd it = FunctionHook) new"
    by (auto simp: list_all_iff)
  show ?thesis
    using vt_same_append[OF l] by (simp add: i state_of_def vt_kept_def)
qed

lemma vt_kept_Install_modules:
  assumes "method \<noteq> VTableHook"
  shows "vt_kept s (state_of (Install_modules e s tm rm method))"
proof (cases "tm = 0 \<or> rm = 0")
  case True
  then show ?thesis by (auto simp: Install_modules_def state_of_def vt_kept_def)
next
  case False
  with Install_modules_frame[OF assms, of tm rm e s] obtain new where
    i: "Install_modules e s tm rm method = Inr (new \<noteq> [], s\<lparr>sHooks := sHooks s @ new\<rparr>)"
    and l: "list_all (\<lambda>it. snd it = method) new"
    by auto
  show ?thesis
    using vt_same_append[OF l assms] by (simp add: i state_of_def vt_kept_def)
qed

lemma vt_kept_resolve: "vt_kept s (resolve_export_hook e s)"
proof -
  let ?s1 = "s\<lparr>sExportHookModule := load_library e (sExportHookPath s), sExportHookPath := []\<rparr>"
  have "vt_kept ?s1 (state_of (Install_modules e ?s1 (load_library e (sExportHookPath s))
            (current_module e) Export))"
    by (rule vt_kept_Install_modules) simp
  moreover have "vt_same s ?s1" by (simp add: vt_same_def)
  ultimately have "vt_kept s (state_of (Install_modules e ?s1 (load_library e (sExportHookPath s))
            (current_module e) Export))"
    by (auto simp: vt_kept_def split: sum.splits intro: vt_same_trans)
  then show ?thesis
    by (auto simp: resolve_export_hook_def Let_def vt_kept_def state_of_def vt_same_def
        split: sum.splits prod.splits)
qed

lemma vt_kept_Call: "vt_kept s (state_of (Call e s r))"
  using vt_kept_resolve[of s e]
  by (auto simp: Call_def Let_def state_of_def vt_kept_def split: sum.splits)

lemma vt_kept_load_watch: "vt_kept s (state_of (load_watch e s self name))"
proof (cases "Call e s self")
  case (Inl err)
  with vt_kept_Call[of s e self] show ?thesis
    by (simp add: load_watch_def state_of_def vt_kept_def)
next
  case (Inr res)
  obtain original s1 where res: "res = (original, s1)" by (cases res)
  from vt_kept_Call[of s e self] have same: "vt_same s s1"
    by (simp add: Inr res state_of_def vt_kept_def)
  let ?h = "invoke e original name"
  have k: "vt_kept s1 (state_of (Install_modules e s1 ?h (current_module e) FunctionHook))"
    by (rule vt_kept_Install_modules) simp
  have "vt_kept s1 (state_of (load_watch e s self name))"
    using k
    by (auto simp: load_watch_def Inr res Let_def state_of_def vt_kept_def vt_same_def
        split: sum.splits option.splits)
  with same show ?thesis
    by (auto simp: vt_kept_def split: sum.splits intro: vt_same_trans)
qed

lemma vt_kept_Register: "vt_kept s (Register e s p)"
proof -
  let ?f2 = "\<lambda>s2. let replacementModule = current_module e;
              replacementPath = module_file_name e replacementModule in
          if iequals (path_stem e p) (path_stem e replacementPath)
          then Inr (s2\<lparr>sExportHookPath := p\<rparr>)
          else let targetModule = get_module_handle e p in
            if targetModule \<noteq> 0
            then state_of (Install_modules e s2 targetModule replacementModule FunctionHook)
            else Inr (s2\<lparr>sDelayedHookPaths := sDelayedHookPaths s2 @ [p]\<rparr>)"
  let ?f1 = "\<lambda>s1. case state_of (Install e s1 (addr_LoadLibraryW e) (addr_HookLoadLibraryW e)) of
               Inl err \<Rightarrow> Inl err | Inr s2 \<Rightarrow> ?f2 s2"
  have reg: "Register e s p =
     (case state_of (Install e s (addr_LoadLibraryA e) (addr_HookLoadLibraryA e)) of
        Inl err \<Rightarrow> Inl err | Inr s1 \<Rightarrow> ?f1 s1)"
    by (simp add: Register_def state_of_def Let_def split: sum.splits prod.splits)
  have k2: "vt_kept s2 (?f2 s2)" for s2
    using vt_kept_Install_modules[of FunctionHook s2 e "get_module_handle e p" "current_module e"]
    by (simp add: Let_def vt_kept_def vt_same_def)
  have k1: "vt_kept s1 (?f1 s1)" for s1
    by (rule vt_kept_bind[OF vt_kept_Install]) (rule k2)
  show ?thesis
    unfolding reg by (rule vt_kept_bind[OF vt_kept_Install]) (rule k1)
qed

lemma vtable_targets_snoc:
  "vtable_targets (hooks @ [(h, VTableHook)]) = vtable_targets hooks @ [Target h]"
  by (simp add: vtable_targets_def)

lemma Install_vtable_cases:
  assumes "vtable_inv s"
  shows "Install_vtable e s vtable offset q = Inl AssertionFailed
       \<or> (\<exists>ok. Install_vtable e s vtable offset q = Inr (ok, s))
       \<or> (\<exists>slot mem. sVTableAddresses s (memory s slot) = None \<and>
            Install_vtable e s vtable offset q =
              Inr (True, s\<lparr>sVTableAddresses := (sVTableAddresses s)(memory s slot \<mapsto> slot),
                           memory := mem,
                           sHooks := sHooks s @
                             [(\<lparr>Target = memory s slot, Replacement = q,
                                Trampoline = memory s slot\<rparr>, VTableHook)]\<rparr>))"
proof -
  let ?slot = "vtable + unat offset * ptr_size e"
  let ?p = "memory s ?slot"
  let ?s1 = "s\<lparr>sVTableAddresses := (sVTableAddresses s)(?p \<mapsto> ?slot)\<rparr>"
  consider (assert) "vtable = 0 \<or> q = 0"
    | (probe) "vtable \<noteq> 0" "q \<noteq> 0" "\<not> virtual_protect e ?slot PAGE_READONLY"
    | (known) "vtable \<noteq> 0" "q \<noteq> 0" "virtual_protect e ?slot PAGE_READONLY"
        "sVTableAddresses s ?p \<noteq> None"
    | (same) "vtable \<noteq> 0" "q \<noteq> 0" "virtual_protect e ?slot PAGE_READONLY"
        "sVTableAddresses s ?p = None" "?p = q"
    | (refused) "vtable \<noteq> 0" "q \<noteq> 0" "virtual_protect e ?slot PAGE_READONLY"
        "sVTableAddresses s ?p = None" "?p \<noteq> q" "\<not> virtual_protect e ?slot PAGE_READWRITE"
    | (hooked) "vtable \<noteq> 0" "q \<noteq> 0" "virtual_protect e ?slot PAGE_READONLY"
        "sVTableAddresses s ?p = None" "?p \<noteq> q" "virtual_protect e ?slot PAGE_READWRITE"
    by blast
  then show ?thesis
  proof cases
    case assert
    then show ?thesis by (auto simp: Install_vtable_def)
  next
    case probe
    then show ?thesis by (auto simp: Install_vtable_def Let_def)
  next
    case known
    then show ?thesis by (auto simp: Install_vtable_def Let_def)
  next
    case same
    have "Install_vtable e s vtable offset q =
            Inr (False, ?s1\<lparr>sVTableAddresses := (sVTableAddresses ?s1)(?p := None)\<rparr>)"
      using same by (simp add: Install_vtable_def Let_def)
    also have "?s1\<lparr>sVTableAddresses := (sVTableAddresses ?s1)(?p := None)\<rparr> = s"
      using same(4) by (simp add: fun_upd_idem)
    finally show ?thesis by blast
  next
    case refused
    have im: "Install_method e ?s1 ?p q VTableHook = Inr (False, ?s1)"
      using refused(6) by (simp add: Install_method_def Install_switch_def)
    have "Install_vtable e s vtable offset q =
            Inr (False, ?s1\<lparr>sVTableAddresses := (sVTableAddresses ?s1)(?p := None)\<rparr>)"
      using refused(1-5) im by (simp add: Install_vtable_def Let_def)
    also have "?s1\<lparr>sVTableAddresses := (sVTableAddresses ?s1)(?p := None)\<rparr> = s"
      using refused(4) by (simp add: fun_upd_idem)
    finally show ?thesis by blast
  next
    case hooked
    let ?s2 = "s\<lparr>sVTableAddresses := (sVTableAddresses s)(?p \<mapsto> ?slot),
                  memory := (memory s)(?slot := q),
                  sHooks := sHooks s @
                    [(\<lparr>Target = ?p, Replacement = q, Trampoline = ?p\<rparr>, VTableHook)]\<rparr>"
    have im: "Install_method e ?s1 ?p q VTableHook = Inr (True, ?s2)"
      using hooked(6) by (simp add: Install_method_def Install_switch_def)
    have "Install_vtable e s vtable offset q = Inr (True, ?s2)"
      using hooked(1-5) im by (simp add: Install_vtable_def Let_def)
    with hooked(4) show ?thesis by blast
  qed
qed

lemma vtable_inv_hooked:
  assumes inv: "vtable_inv s" and fresh: "sVTableAddresses s p = None"
  shows "vtable_inv (s\<lparr>sVTableAddresses := (sVTableAddresses s)(p \<mapsto> slot), memory := mem,
                       sHooks := sHooks s @ [(\<lparr>Target = p, Replacement = q, Trampoline = p\<rparr>, VTableHook)]\<rparr>)"
proof -
  have notin: "p \<notin> set (vtable_targets (sHooks s))"
    using inv fresh by (auto simp: vtable_inv_def list_all_iff)
  show ?thesis
    using inv notin by (auto simp: vtable_inv_def vtable_targets_snoc list_all_iff)
qed

text \<open>One hook of the uninstall loop.\<close>

lemma Uninstall_hook_cases:
  assumes "snd it = VTableHook \<longrightarrow> sVTableAddresses s (Target (fst it)) \<noteq> None"
  shows "\<exists>ok hook' s'. Uninstall_hook e s (fst it) (snd it) = Inr (ok, hook', s')
           \<and> sHooks s' = sHooks s \<and> sExportHookModule s' = sExportHookModule s
           \<and> free_library_calls s' = free_library_calls s
           \<and> sExportHookPath s' = sExportHookPath s
           \<and> sDelayedHookPaths s' = sDelayedHookPaths s
           \<and> (sVTableAddresses s' = sVTableAddresses s
               \<or> (snd it = VTableHook \<and>
                   (\<exists>a. sVTableAddresses s (Target (fst it)) = Some a
                        \<and> virtual_protect e a PAGE_READWRITE)
                   \<and> sVTableAddresses s' = (sVTableAddresses s)(Target (fst it) := None)))"
proof (cases "snd it")
  case Export
  then show ?thesis by (auto simp: Uninstall_hook_def)
next
  case FunctionHook
  then show ?thesis by (auto simp: Uninstall_hook_def)
next
  case VTableHook
  with assms obtain a where a: "sVTableAddresses s (Target (fst it)) = Some a" by auto
  show ?thesis
    by (cases "IsInstalled (fst it)"; cases "virtual_protect e a PAGE_READWRITE")
       (auto simp: Uninstall_hook_def VTableHook a)
qed

lemma Uninstall_loop_total:
  assumes "list_all (\<lambda>t. sVTableAddresses s t \<noteq> None) (vtable_targets rest)"
    and "distinct (vtable_targets rest)"
  shows "\<exists>visited' s'. Uninstall_loop e visited rest s = Inr (visited', s')
           \<and> sHooks s' = sHooks s \<and> sExportHookModule s' = sExportHookModule s
           \<and> free_library_calls s' = free_library_calls s
           \<and> sExportHookPath s' = sExportHookPath s
           \<and> sDelayedHookPaths s' = sDelayedHookPaths s
           \<and> (\<forall>k. sVTableAddresses s' k = sVTableAddresses s k
                  \<or> (k \<in> set (vtable_targets rest)
                      \<and> (\<exists>a. sVTableAddresses s k = Some a \<and> virtual_protect e a PAGE_READWRITE)
                      \<and> sVTableAddresses s' k = None))"
  using assms
proof (induction rest arbitrary: visited s)
  case Nil
  then show ?case by simp
next
  case (Cons it rest)
  have pre: "snd it = VTableHook \<longrightarrow> sVTableAddresses s (Target (fst it)) \<noteq> None"
    using Cons.prems(1) by (auto simp: vtable_targets_def)
  from Uninstall_hook_cases[OF pre, of e] obtain ok hook' s1 where
    u: "Uninstall_hook e s (fst it) (snd it) = Inr (ok, hook', s1)"
    and fr: "sHooks s1 = sHooks s" "sExportHookModule s1 = sExportHookModule s"
            "free_library_calls s1 = free_library_calls s"
            "sExportHookPath s1 = sExportHookPath s"
            "sDelayedHookPaths s1 = sDelayedHookPaths s"
    and vt: "sVTableAddresses s1 = sVTableAddresses s
             \<or> (snd it = VTableHook \<and>
                 (\<exists>a. sVTableAddresses s (Target (fst it)) = Some a
                      \<and> virtual_protect e a PAGE_READWRITE)
                 \<and> sVTableAddresses s1 = (sVTableAddresses s)(Target (fst it) := None))"
    by blast
  have rest_sub: "set (vtable_targets rest) \<subseteq> set (vtable_targets (it # rest))"
    by (auto simp: vtable_targets_def)
  have d: "distinct (vtable_targets rest)"
    using Cons.prems(2) by (auto simp: vtable_targets_def split: if_splits)
  have notin: "snd it = VTableHook \<Longrightarrow> Target (fst it) \<notin> set (vtable_targets rest)"
    using Cons.prems(2) by (auto simp: vtable_targets_def)
  have keys: "list_all (\<lambda>t. sVTableAddresses s1 t \<noteq> None) (vtable_targets rest)"
    using vt Cons.prems(1) notin rest_sub
    by (auto simp: list_all_iff)
  from Cons.IH[OF keys d, of "visited @ [(hook', snd it)]"] obtain visited' s' where
    l: "Uninstall_loop e (visited @ [(hook', snd it)]) rest s1 = Inr (visited', s')"
    and fr': "sHooks s' = sHooks s1" "sExportHookModule s' = sExportHookModule s1"
             "free_library_calls s' = free_library_calls s1"
             "sExportHookPath s' = sExportHookPath s1"
             "sDelayedHookPaths s' = sDelayedHookPaths s1"
    and vt': "\<forall>k. sVTableAddresses s' k = sVTableAddresses s1 k
                  \<or> (k \<in> set (vtable_targets rest)
                      \<and> (\<exists>a. sVTableAddresses s1 k = Some a \<and> virtual_protect e a PAGE_READWRITE)
                      \<and> sVTableAddresses s' k = None)"
    by blast
  have final: "sVTableAddresses s' k = sVTableAddresses s k
                  \<or> (k \<in> set (vtable_targets (it # rest))
                      \<and> (\<exists>a. sVTableAddresses s k = Some a \<and> virtual_protect e a PAGE_READWRITE)
                      \<and> sVTableAddresses s' k = None)" for k
  proof (cases "sVTableAddresses s1 = sVTableAddresses s")
    case True
    with vt'[rule_format, of k] rest_sub show ?thesis by auto
  next
    case False
    with vt have m: "snd it = VTableHook"
      and a: "\<exists>a. sVTableAddresses s (Target (fst it)) = Some a \<and> virtual_protect e a PAGE_READWRITE"
      and upd: "sVTableAddresses s1 = (sVTableAddresses s)(Target (fst it) := None)"
      by auto
    have hd_in: "Target (fst it) \<in> set (vtable_targets (it # rest))"
      using m by (simp add: vtable_targets_def)
    show ?thesis
    proof (cases "k = Target (fst it)")
      case True
      have "sVTableAddresses s' k = None"
        using vt'[rule_format, of k] upd True by auto
      with True a hd_in show ?thesis by auto
    next
      case False
      with vt'[rule_format, of k] upd rest_sub show ?thesis by auto
    qed
  qed
  show ?case
    using u l fr fr' final by simp
qed

lemma Uninstall_total:
  assumes "vtable_inv s"
  shows "\<exists>s'. Uninstall e s = Inr s' \<and> sHooks s' = []
           \<and> (\<forall>k. sVTableAddresses s' k = sVTableAddresses s k
                  \<or> (k \<in> set (vtable_targets (sHooks s))
                      \<and> (\<exists>a. sVTableAddresses s k = Some a \<and> virtual_protect e a PAGE_READWRITE)
                      \<and> sVTableAddresses s' k = None))"
proof -
  from assms have "list_all (\<lambda>t. sVTableAddresses s t \<noteq> None) (vtable_targets (sHooks s))"
    and "distinct (vtable_targets (sHooks s))"
    by (simp_all add: vtable_inv_def)
  from Uninstall_loop_total[OF this, of e "[]"] obtain visited s1 where
    l: "Uninstall_loop e [] (sHooks s) s = Inr (visited, s1)"
    and vt: "\<forall>k. sVTableAddresses s1 k = sVTableAddresses s k
                  \<or> (k \<in> set (vtable_targets (sHooks s))
                      \<and> (\<exists>a. sVTableAddresses s k = Some a \<and> virtual_protect e a PAGE_READWRITE)
                      \<and> sVTableAddresses s1 k = None)"
    by blast
  show ?thesis
    using l vt by (simp add: Uninstall_def Let_def)
qed

lemma vtable_inv_empty: "sHooks s = [] \<Longrightarrow> vtable_inv s"
  by (simp add: vtable_inv_def vtable_targets_def)

lemma exec_kept:
  assumes "operation \<noteq> OpUninstall" and "\<forall>v off r. operation \<noteq> OpInstallVTable v off r"
  shows "vt_kept s (exec e operation s)"
proof (cases operation)
  case (OpRegister p)
  then show ?thesis using vt_kept_Register by (simp add: exec_def)
next
  case (OpInstall t r)
  then show ?thesis using vt_kept_Install by (simp add: exec_def)
next
  case (OpInstallVTable v off r)
  with assms show ?thesis by simp
next
  case OpUninstall
  with assms show ?thesis by simp
next
  case (OpFind r)
  then show ?thesis by (simp add: exec_def vt_kept_def vt_same_refl)
next
  case (OpCall r)
  then show ?thesis using vt_kept_Call by (simp add: exec_def)
next
  case (OpLoadLibraryA name)
  then show ?thesis using vt_kept_load_watch by (simp add: exec_def HookLoadLibraryA_def)
next
  case (OpLoadLibraryW name)
  then show ?thesis using vt_kept_load_watch by (simp add: exec_def HookLoadLibraryW_def)
next
  case (OpMemoryWrite a v)
  then show ?thesis by (simp add: exec_def vt_kept_def vt_same_def)
qed

lemma exec_step:
  assumes inv: "vtable_inv s"
  shows "exec e operation s \<noteq> Inl OutOfRange
       \<and> (\<forall>s'. exec e operation s = Inr s' \<longrightarrow>
             vtable_inv s'
             \<and> (\<forall>k a. sVTableAddresses s k = Some a \<longrightarrow>
                   sVTableAddresses s' k = Some a
                   \<or> (operation = OpUninstall \<and> k \<in> set (vtable_targets (sHooks s))
                       \<and> virtual_protect e a PAGE_READWRITE \<and> sVTableAddresses s' k = None))
             \<and> (\<forall>k. sVTableAddresses s k = None \<longrightarrow>
                   sVTableAddresses s' k = None \<or> k \<in> set (vtable_targets (sHooks s'))))"
proof -
  consider (uninstall) "operation = OpUninstall"
    | (vt) v off r where "operation = OpInstallVTable v off r"
    | (other) "operation \<noteq> OpUninstall" "\<forall>v off r. operation \<noteq> OpInstallVTable v off r"
    by blast
  then show ?thesis
  proof cases
    case uninstall
    from Uninstall_total[OF inv, of e] obtain s1 where
      u: "Uninstall e s = Inr s1" and emp: "sHooks s1 = []"
      and vt: "\<forall>k. sVTableAddresses s1 k = sVTableAddresses s k
                  \<or> (k \<in> set (vtable_targets (sHooks s))
                      \<and> (\<exists>a. sVTableAddresses s k = Some a \<and> virtual_protect e a PAGE_READWRITE)
                      \<and> sVTableAddresses s1 k = None)"
      by blast
    have ex: "exec e operation s = Inr s1" using u uninstall by (simp add: exec_def)
    have a: "sVTableAddresses s k = Some a \<Longrightarrow>
              sVTableAddresses s1 k = Some a
              \<or> (operation = OpUninstall \<and> k \<in> set (vtable_targets (sHooks s))
                  \<and> virtual_protect e a PAGE_READWRITE \<and> sVTableAddresses s1 k = None)" for k a
      using vt[rule_format, of k] uninstall by auto
    have b: "sVTableAddresses s k = None \<Longrightarrow> sVTableAddresses s1 k = None" for k
      using vt[rule_format, of k] by auto
    show ?thesis
      using ex vtable_inv_empty[OF emp] a b by auto
  next
    case vt
    from Install_vtable_cases[OF inv, of e v off r]
    show ?thesis
    proof (elim disjE exE conjE)
      assume "Install_vtable e s v off r = Inl AssertionFailed"
      then show ?thesis by (simp add: exec_def vt state_of_def)
    next
      fix ok assume "Install_vtable e s v off r = Inr (ok, s)"
      then show ?thesis using inv by (simp add: exec_def vt state_of_def)
    next
      fix slot mem
      let ?p = "memory s slot"
      let ?s' = "s\<lparr>sVTableAddresses := (sVTableAddresses s)(?p \<mapsto> slot), memory := mem,
                    sHooks := sHooks s @
                      [(\<lparr>Target = ?p, Replacement = r, Trampoline = ?p\<rparr>, VTableHook)]\<rparr>"
      assume fresh: "sVTableAddresses s ?p = None"
        and i: "Install_vtable e s v off r = Inr (True, ?s')"
      have ex: "exec e operation s = Inr ?s'" using i by (simp add: exec_def vt state_of_def)
      have inv': "vtable_inv ?s'" by (rule vtable_inv_hooked[OF inv fresh])
      have a: "sVTableAddresses s k = Some a \<Longrightarrow> sVTableAddresses ?s' k = Some a" for k a
        using fresh by auto
      have b: "sVTableAddresses s k = None \<Longrightarrow>
                 sVTableAddresses ?s' k = None \<or> k \<in> set (vtable_targets (sHooks ?s'))" for k
        by (simp add: vtable_targets_snoc)
      have "exec e operation s \<noteq> Inl OutOfRange" using ex by simp
      moreover have "vtable_inv s'
             \<and> (\<forall>k a. sVTableAddresses s k = Some a \<longrightarrow>
                   sVTableAddresses s' k = Some a
                   \<or> (operation = OpUninstall \<and> k \<in> set (vtable_targets (sHooks s))
                       \<and> virtual_protect e a PAGE_READWRITE \<and> sVTableAddresses s' k = None))
             \<and> (\<forall>k. sVTableAddresses s k = None \<longrightarrow>
                   sVTableAddresses s' k = None \<or> k \<in> set (vtable_targets (sHooks s')))"
        if "exec e operation s = Inr s'" for s'
      proof -
        from that ex have s': "s' = ?s'" by simp
        show ?thesis unfolding s' using inv' a b by blast
      qed
      ultimately show ?thesis by blast
    qed
  next
    case other
    from exec_kept[OF other, of s e] have k: "vt_kept s (exec e operation s)" .
    show ?thesis
    proof (cases "exec e operation s")
      case (Inl err)
      with k show ?thesis by (simp add: vt_kept_def)
    next
      case (Inr s1)
      with k have same: "vt_same s s1" by (simp add: vt_kept_def)
      then have eq: "sVTableAddresses s1 = sVTableAddresses s" by (simp add: vt_same_def)
      show ?thesis
        using Inr vt_same_inv[OF same inv] eq by simp
    qed
  qed
qed

lemma run_invariant:
  assumes "vtable_inv s"
  shows "run steps s \<noteq> Inl OutOfRange \<and> (\<forall>s'. run steps s = Inr s' \<longrightarrow> vtable_inv s')"
  using assms
proof (induction steps arbitrary: s)
  case Nil
  then show ?case by simp
next
  case (Cons step steps)
  from exec_step[OF Cons.prems, of "fst step" "snd step"]
  have no: "exec (fst step) (snd step) s \<noteq> Inl OutOfRange"
    and pres: "\<And>s1. exec (fst step) (snd step) s = Inr s1 \<Longrightarrow> vtable_inv s1"
    by blast+
  show ?case
  proof (cases "exec (fst step) (snd step) s")
    case (Inl err)
    with no show ?thesis by simp
  next
    case (Inr s1)
    from Cons.IH[OF pres[OF Inr]] show ?thesis by (simp add: Inr)
  qed
qed

lemma vtable_inv_init: "vtable_inv (init_world mem)"
  by (simp add: vtable_inv_empty init_world_def)

text \<open>
  Claim C10. The invariant holds in the initial state. From a state where it holds, no
  step (a public operation, a load-watch hook, a write to memory by other code) ends in the \<^verbatim>\<open>std::out_of_range\<close> of a slot-table lookup, and the state
  it returns satisfies the invariant again: the target of every tracked virtual-table hook
  is a key of the slot table. An entry of the slot table disappears only in \<open>Uninstall()\<close>,
  as the entry of a tracked virtual-table hook whose slot could be made writable; an entry
  that is new after an operation belongs to a virtual-table hook tracked after it, so an
  install that records no hook leaves no entry behind. Hence every run of steps
  from the initial state, under any answers of the outside world, never takes the lookup
  failure branch and ends in a state that satisfies the invariant.
\<close>

theorem slot_table_invariant:
  "vtable_inv (init_world mem)
   \<and> (vtable_inv s \<longrightarrow>
        exec e operation s \<noteq> Inl OutOfRange
        \<and> (\<forall>s'. exec e operation s = Inr s' \<longrightarrow>
             vtable_inv s'
             \<and> (\<forall>k a. sVTableAddresses s k = Some a \<longrightarrow>
                   sVTableAddresses s' k = Some a
                   \<or> (operation = OpUninstall \<and> k \<in> set (vtable_targets (sHooks s))
                       \<and> virtual_protect e a PAGE_READWRITE \<and> sVTableAddresses s' k = None))
             \<and> (\<forall>k. sVTableAddresses s k = None \<longrightarrow>
                   sVTableAddresses s' k = None \<or> k \<in> set (vtable_targets (sHooks s')))))
   \<and> run steps (init_world mem) \<noteq> Inl OutOfRange
   \<and> (\<forall>s''. run steps (init_world mem) = Inr s'' \<longrightarrow> vtable_inv s'')"
  using vtable_inv_init[of mem] exec_step[of s e operation] run_invariant[OF vtable_inv_init, of steps mem]
  by blast

text \<open>Hooking the slot at \<open>0x2000\<close> and uninstalling everything, from the initial state.\<close>

theorem slot_table_invariant_witness:
  "vtable_inv (init_world demo_memory)
   \<and> exec demo_env (OpInstallVTable 0x2000 0 0x4000) (init_world demo_memory) \<noteq> Inl OutOfRange
   \<and> run [(demo_env, OpInstallVTable 0x2000 0 0x4000), (demo_env, OpUninstall)]
         (init_world demo_memory) \<noteq> Inl OutOfRange"
  using slot_table_invariant [of demo_memory "init_world demo_memory" demo_env
      "OpInstallVTable 0x2000 0 0x4000"
      "[(demo_env, OpInstallVTable 0x2000 0 0x4000), (demo_env, OpUninstall)]"]
  by blast

end
